theory Spec2Isabelle
  imports Complex_Main "HOL-Library.AList"
begin

section \<open>Scope\<close>

text \<open>
  A model of \<^verbatim>\<open>kinopoisk_scraper.py\<close>: the methods \<^verbatim>\<open>get_total_pages\<close>,
  \<^verbatim>\<open>fetch_ratings_page\<close>, \<^verbatim>\<open>parse_rating_item\<close>, \<^verbatim>\<open>extract_from_html\<close> and
  \<^verbatim>\<open>export_to_csv\<close> of the class \<^verbatim>\<open>KinopoiskScraper\<close>, over models of the library
  functions they call (\<^verbatim>\<open>re\<close>, \<^verbatim>\<open>str\<close>, \<^verbatim>\<open>datetime\<close>, BeautifulSoup), with
  the network and the file system as an explicit world. The constructor, the cookie
  parsing and \<^verbatim>\<open>main\<close> are left out. So are the messages printed to the console,
  apart from the dictionary lookups that build them. The limit of the interpreter on
  the length of a decimal string given to \<^verbatim>\<open>int\<close> is modelled at its default;
  the other limits (recursion depth, memory) are outside the model, except as the
  exceptions described with \<open>run_body\<close>.
\<close>

section \<open>Python strings\<close>

text \<open>
  A Python \<^verbatim>\<open>str\<close> is a sequence of Unicode code points, so it is modelled as a list
  of natural numbers. ASCII literals of the source are written \<open>u ''...''\<close>; the Cyrillic
  literals are given by their code points.
\<close>

type_synonym ustr = "nat list"

definition u :: "string \<Rightarrow> ustr" where
  "u s = map of_char s"

text \<open>
  \<^verbatim>\<open>str.isspace\<close>, which is also the class \<^verbatim>\<open>\s\<close> of \<^verbatim>\<open>re\<close> on
  \<^verbatim>\<open>str\<close> patterns and the set that \<^verbatim>\<open>str.strip()\<close> removes. The
  no-break space U+00A0 (160) belongs to it.
\<close>

definition is_space :: "nat \<Rightarrow> bool" where
  "is_space c = (c \<in> set [9, 10, 11, 12, 13, 28, 29, 30, 31, 32, 133, 160, 5760,
     8192, 8193, 8194, 8195, 8196, 8197, 8198, 8199, 8200, 8201, 8202,
     8232, 8233, 8239, 8287, 12288])"

text \<open>
  The class \<^verbatim>\<open>\d\<close> of \<^verbatim>\<open>re\<close> on \<^verbatim>\<open>str\<close> patterns is the Unicode category
  Nd. Every decimal system occupies ten consecutive code points starting at its zero;
  \<open>nd_zeros\<close> lists the zeros (Unicode 14.0, the table of CPython 3.11). Below
  U+0660 (1632) the only digits are the ASCII ones.
\<close>

definition nd_zeros :: "nat list" where
  "nd_zeros = [48, 1632, 1776, 1984, 2406, 2534, 2662, 2790, 2918, 3046, 3174, 3302,
     3430, 3558, 3664, 3792, 3872, 4160, 4240, 6112, 6160, 6470, 6608, 6784, 6800, 6992,
     7088, 7232, 7248, 42528, 43216, 43264, 43472, 43504, 43600, 44016, 65296, 66720,
     68912, 69734, 69872, 69942, 70096, 70384, 70736, 70864, 71248, 71360, 71472, 71904,
     72016, 72784, 73040, 73120, 92768, 92864, 93008, 120782, 120792, 120802, 120812,
     120822, 123200, 123632, 125264, 130032]"

definition digit_value :: "nat \<Rightarrow> nat option" where
  "digit_value c =
     (if c < 1632 then (if 48 \<le> c \<and> c \<le> 57 then Some (c - 48) else None)
      else map_option (\<lambda>z. c - z) (List.find (\<lambda>z. z \<le> c \<and> c < z + 10) nd_zeros))"

definition is_digit :: "nat \<Rightarrow> bool" where
  "is_digit c = (digit_value c \<noteq> None)"

text \<open>The number that a run of decimal digits denotes. Python integers are unbounded.\<close>

definition py_int :: "ustr \<Rightarrow> int" where
  "py_int ds = foldl (\<lambda>a c. 10 * a + int (case digit_value c of Some v \<Rightarrow> v | None \<Rightarrow> 0)) 0 ds"

text \<open>
  \<^verbatim>\<open>int(s)\<close> on a non-empty run of decimal digits. CPython (3.11, and the security
  releases of 3.7 to 3.10) raises \<^verbatim>\<open>ValueError\<close>, here \<open>None\<close>, when the string has
  more digits than \<^verbatim>\<open>sys.get_int_max_str_digits()\<close>, 4300 unless configured
  otherwise; leading zeros count.
\<close>

definition int_max_str_digits :: nat where
  "int_max_str_digits = 4300"

definition int_of_str :: "ustr \<Rightarrow> int option" where
  "int_of_str ds = (if int_max_str_digits < length ds then None else Some (py_int ds))"

definition lstrip :: "ustr \<Rightarrow> ustr" where
  "lstrip s = dropWhile is_space s"

definition rstrip :: "ustr \<Rightarrow> ustr" where
  "rstrip s = rev (dropWhile is_space (rev s))"

definition strip :: "ustr \<Rightarrow> ustr" where
  "strip s = rstrip (lstrip s)"

definition starts_with :: "ustr \<Rightarrow> ustr \<Rightarrow> bool" where
  "starts_with p s = (take (length p) s = p)"

text \<open>\<^verbatim>\<open>p in s\<close> on strings: \<open>p\<close> occurs at some position of \<open>s\<close>.\<close>

fun contains :: "ustr \<Rightarrow> ustr \<Rightarrow> bool" where
  "contains p [] = (p = [])"
| "contains p (c # cs) = (starts_with p (c # cs) \<or> contains p cs)"

text \<open>\<^verbatim>\<open>" ".join(xs)\<close>\<close>

fun join_sp :: "ustr list \<Rightarrow> ustr" where
  "join_sp [] = []"
| "join_sp [x] = x"
| "join_sp (x # y # ys) = x @ 32 # join_sp (y # ys)"

section \<open>The regular expressions of the source\<close>

text \<open>
  \<^verbatim>\<open>re.search\<close> tries the pattern at every start position from left to right, the
  position after the last character included, and returns the first match.
\<close>

fun re_search :: "(ustr \<Rightarrow> 'a option) \<Rightarrow> ustr \<Rightarrow> 'a option" where
  "re_search m [] = m []"
| "re_search m (c # cs) = (case m (c # cs) of Some r \<Rightarrow> Some r | None \<Rightarrow> re_search m cs)"

text \<open>
  \<^verbatim>\<open>\u0438\u0437\s*(\d+)\<close> anchored at the start of its argument; the result is group 1. The
  two letters are U+0438 and U+0437. The greedy \<^verbatim>\<open>\s*\<close> takes every space: giving one
  back leaves a space where a digit is required. The greedy \<^verbatim>\<open>\d+\<close> takes the whole
  run of digits.
\<close>

definition rx_total :: "ustr \<Rightarrow> ustr option" where
  "rx_total s =
     (if starts_with [1080, 1079] s
      then (let d = takeWhile is_digit (dropWhile is_space (drop 2 s))
            in if d = [] then None else Some d)
      else None)"

text \<open>\<^verbatim>\<open>(\d+)\<close> anchored at the start of its argument.\<close>

definition rx_digits :: "ustr \<Rightarrow> ustr option" where
  "rx_digits s = (let d = takeWhile is_digit s in if d = [] then None else Some d)"

text \<open>
  \<^verbatim>\<open>\s*\((\d{4})\)$\<close> anchored at the start of its argument; the result is the
  four digits. \<^verbatim>\<open>$\<close> holds at the end of the string and before a newline that is
  its last character.
\<close>

definition rx_year_tail :: "ustr \<Rightarrow> ustr option" where
  "rx_year_tail s =
     (let r = dropWhile is_space s; y = take 4 (drop 1 r); e = drop 6 r
      in if starts_with [40] r \<and> length y = 4 \<and> list_all is_digit y
            \<and> starts_with [41] (drop 5 r) \<and> (e = [] \<or> e = [10])
         then Some y else None)"

text \<open>
  \<^verbatim>\<open>re.match(r"^(.*?)\s*\((\d{4})\)$", s)\<close>: the lazy \<^verbatim>\<open>(.*?)\<close> grows one
  character at a time, trying the rest of the pattern after each; \<^verbatim>\<open>.\<close> does not
  match a newline, so the growth stops there. \<open>pre\<close> is what group 1 has consumed.
  The result is (group 1, group 2).
\<close>

fun rx_name_year :: "ustr \<Rightarrow> ustr \<Rightarrow> (ustr \<times> ustr) option" where
  "rx_name_year pre [] = (case rx_year_tail [] of Some y \<Rightarrow> Some (pre, y) | None \<Rightarrow> None)"
| "rx_name_year pre (c # cs) =
     (case rx_year_tail (c # cs) of
        Some y \<Rightarrow> Some (pre, y)
      | None \<Rightarrow> if c = 10 then None else rx_name_year (pre @ [c]) cs)"

text \<open>
  \<^verbatim>\<open>rating:\s*'(\d+)'\<close> anchored at the start of its argument; the result is
  group 1. The apostrophe is code point 39.
\<close>

definition rx_rating :: "ustr \<Rightarrow> ustr option" where
  "rx_rating s =
     (if starts_with (u ''rating:'') s
      then (let r = dropWhile is_space (drop 7 s);
                d = takeWhile is_digit (drop 1 r);
                e = dropWhile is_digit (drop 1 r)
            in if starts_with [39] r \<and> d \<noteq> [] \<and> starts_with [39] e then Some d else None)
      else None)"

text \<open>
  \<^verbatim>\<open>\d+\s*\u043c\u0438\u043d\.?\<close> anchored at the start of its argument (the letters are U+043C,
  U+0438, U+043D); only whether it matches is used. The optional full stop never
  decides.
\<close>

definition rx_minutes :: "ustr \<Rightarrow> unit option" where
  "rx_minutes s =
     (if takeWhile is_digit s \<noteq> []
         \<and> starts_with [1084, 1080, 1085] (dropWhile is_space (dropWhile is_digit s))
      then Some () else None)"

section \<open>The document tree of BeautifulSoup\<close>

text \<open>
  \<^verbatim>\<open>BeautifulSoup(text, "html.parser")\<close> is the external parser; the model starts
  from the tree it returns. A \<^verbatim>\<open>Tag\<close> has a name, a class list, the other
  attributes and its contents. The
  parser turns the \<^verbatim>\<open>class\<close> attribute into a list of tokens and leaves every
  attribute read by the source (\<^verbatim>\<open>vote\<close>, \<^verbatim>\<open>type\<close>) a string, so the tree
  keeps the class list apart (\<open>None\<close>: no \<^verbatim>\<open>class\<close> attribute) from the other
  attributes, a dictionary read with \<open>map_of\<close>. Tag and attribute names are in lower
  case, as the parser produces them. A string node carries its class:
  \<^verbatim>\<open>get_text\<close> of an ordinary tag collects \<^verbatim>\<open>NavigableString\<close> and
  \<^verbatim>\<open>CData\<close> only (not the content of a script, a comment, ...), while
  \<^verbatim>\<open>.string\<close> accepts every class.
\<close>

datatype skind = NavigableString | CData | Script | OtherString

datatype node =
    Tag ustr "ustr list option" "(ustr \<times> ustr) list" "node list"
  | Str skind ustr

text \<open>
  An element the source holds is a node together with its ancestors (name and class
  list, nearest first): a CSS selector with a descendant combinator looks at them.
\<close>

type_synonym path = "(ustr \<times> ustr list option) list"
type_synonym elem = "path \<times> node"

text \<open>The node itself and all its descendants in document order, each with its ancestors.\<close>

primrec subtree :: "node \<Rightarrow> path \<Rightarrow> elem list" where
  "subtree (Tag n c a ks) p = (p, Tag n c a ks) # concat (map (\<lambda>k. subtree k ((n, c) # p)) ks)"
| "subtree (Str k s) p = [(p, Str k s)]"

text \<open>\<^verbatim>\<open>tag.descendants\<close>\<close>

fun descendants :: "elem \<Rightarrow> elem list" where
  "descendants (p, Tag n c a ks) = concat (map (\<lambda>k. subtree k ((n, c) # p)) ks)"
| "descendants (p, Str k s) = []"

text \<open>
  \<^verbatim>\<open>tag.text\<close> for a tag that is not itself a string container (all the tags the
  source reads are \<^verbatim>\<open>div\<close>, \<^verbatim>\<open>span\<close> or \<^verbatim>\<open>a\<close>).
\<close>

primrec text_of :: "node \<Rightarrow> ustr" where
  "text_of (Tag n c a ks) = concat (map text_of ks)"
| "text_of (Str k s) = (if k = NavigableString \<or> k = CData then s else [])"

text \<open>
  \<^verbatim>\<open>tag.string\<close>: the only child if it is a string, the \<^verbatim>\<open>.string\<close> of the only
  child if it is a tag, otherwise \<^verbatim>\<open>None\<close>.
\<close>

primrec string_of :: "node \<Rightarrow> ustr option" and only_string :: "node list \<Rightarrow> ustr option" where
  "string_of (Tag n c a ks) = only_string ks"
| "string_of (Str k s) = Some s"
| "only_string [] = None"
| "only_string (k # ks) = (if ks = [] then string_of k else None)"

text \<open>
  The keyword \<^verbatim>\<open>class_="c"\<close> of \<^verbatim>\<open>find\<close> and \<^verbatim>\<open>find_all\<close>: one token of
  the class list is \<open>c\<close>, or the whole list joined by spaces is.
\<close>

definition class_is :: "ustr \<Rightarrow> node \<Rightarrow> bool" where
  "class_is c t =
     (case t of
        Tag n (Some cl) a ks \<Rightarrow> c \<in> set cl \<or> join_sp cl = c
      | _ \<Rightarrow> False)"

definition named :: "ustr \<Rightarrow> node \<Rightarrow> bool" where
  "named n t = (case t of Tag m c a ks \<Rightarrow> m = n | _ \<Rightarrow> False)"

text \<open>\<^verbatim>\<open>e.find_all(n, class_=c)\<close> and \<^verbatim>\<open>e.find(n, class_=c)\<close>\<close>

definition find_all_class :: "ustr \<Rightarrow> ustr \<Rightarrow> elem \<Rightarrow> elem list" where
  "find_all_class n c e = filter (\<lambda>d. named n (snd d) \<and> class_is c (snd d)) (descendants e)"

definition find_class :: "ustr \<Rightarrow> ustr \<Rightarrow> elem \<Rightarrow> elem option" where
  "find_class n c e = List.find (\<lambda>d. named n (snd d) \<and> class_is c (snd d)) (descendants e)"

text \<open>\<^verbatim>\<open>e.find_all(n)\<close>\<close>

definition find_all_named :: "ustr \<Rightarrow> elem \<Rightarrow> elem list" where
  "find_all_named n e = filter (\<lambda>d. named n (snd d)) (descendants e)"

text \<open>
  \<^verbatim>\<open>tag.has_attr(k)\<close> and \<^verbatim>\<open>tag[k]\<close>, for \<^verbatim>\<open>class\<close> and for another
  attribute.
\<close>

definition class_attr :: "node \<Rightarrow> ustr list option" where
  "class_attr t = (case t of Tag n c a ks \<Rightarrow> c | _ \<Rightarrow> None)"

definition attr :: "ustr \<Rightarrow> node \<Rightarrow> ustr option" where
  "attr k t = (case t of Tag n c a ks \<Rightarrow> map_of a k | _ \<Rightarrow> None)"

text \<open>A CSS class selector \<^verbatim>\<open>.c\<close>: \<open>c\<close> is one of the tokens.\<close>

definition css_class :: "ustr \<Rightarrow> ustr list option \<Rightarrow> bool" where
  "css_class c cl = (case cl of Some ts \<Rightarrow> c \<in> set ts | None \<Rightarrow> False)"

text \<open>
  \<^verbatim>\<open>e.select_one("div.nameRus a")\<close>: the first descendant of \<open>e\<close> named
  \<^verbatim>\<open>a\<close> that has an ancestor \<^verbatim>\<open>div.nameRus\<close>. The ancestor is looked for
  up to the root of the document, so it may be \<open>e\<close> itself or lie above it.
\<close>

definition select_name_link :: "elem \<Rightarrow> elem option" where
  "select_name_link e =
     List.find (\<lambda>d. named (u ''a'') (snd d)
                  \<and> list_ex (\<lambda>h. fst h = u ''div'' \<and> css_class (u ''nameRus'') (snd h)) (fst d))
       (descendants e)"

text \<open>\<^verbatim>\<open>e.select_one("div.rateNow[vote]")\<close>\<close>

definition select_rate_now :: "elem \<Rightarrow> elem option" where
  "select_rate_now e =
     List.find (\<lambda>d. named (u ''div'') (snd d)
                  \<and> (case snd d of Tag n c a ks \<Rightarrow> css_class (u ''rateNow'') c | _ \<Rightarrow> False)
                  \<and> attr (u ''vote'') (snd d) \<noteq> None)
       (descendants e)"

text \<open>
  \<^verbatim>\<open>e.select_one("div[class*='MyKP_Folder_Select_'][type]")\<close>: the value of a
  \<^verbatim>\<open>class\<close> attribute is its tokens joined by spaces.
\<close>

definition select_type_div :: "elem \<Rightarrow> elem option" where
  "select_type_div e =
     List.find (\<lambda>d. named (u ''div'') (snd d)
                  \<and> (case snd d of
                        Tag n (Some cl) a ks \<Rightarrow> contains (u ''MyKP_Folder_Select_'') (join_sp cl)
                      | _ \<Rightarrow> False)
                  \<and> attr (u ''type'') (snd d) \<noteq> None)
       (descendants e)"

text \<open>
  \<^verbatim>\<open>e.find("span", class_="text-grey", string=re.compile(r'\d+\s*\u043c\u0438\u043d\.?'))\<close>: the
  first such span whose \<^verbatim>\<open>.string\<close> exists and is matched somewhere by the
  pattern.
\<close>

definition find_duration_span :: "elem \<Rightarrow> elem option" where
  "find_duration_span e =
     List.find (\<lambda>d. named (u ''span'') (snd d) \<and> class_is (u ''text-grey'') (snd d)
                  \<and> (case string_of (snd d) of
                        Some s \<Rightarrow> re_search rx_minutes s \<noteq> None
                      | None \<Rightarrow> False))
       (descendants e)"

section \<open>The network and the file system\<close>

text \<open>
  The outside world of one run. \<open>net w k p\<close> is what the request number \<open>k\<close> of the
  run (counted from 0) gets when it asks for listing page \<open>p\<close>: the parsed document,
  or \<open>None\<close> when \<^verbatim>\<open>requests.get\<close>, \<^verbatim>\<open>raise_for_status\<close> or the parser
  raises. \<open>sent\<close> logs the page numbers requested so far, \<open>slept\<close> counts the pauses
  of 1.5 seconds, \<open>csv\<close> is the content of the output file (\<open>None\<close>: not written) and
  \<open>csv_ok\<close> tells whether opening and writing the file succeeds.
\<close>

datatype exn = KeyError | Unexpected

record world =
  net :: "nat \<Rightarrow> int \<Rightarrow> node option"
  sent :: "int list"
  slept :: nat
  csv_ok :: bool
  csv :: "ustr list list option"

definition http_get :: "int \<Rightarrow> world \<Rightarrow> node option \<times> world" where
  "http_get p w = (net w (length (sent w)) p, w\<lparr>sent := sent w @ [p]\<rparr>)"

section \<open>get_total_pages\<close>

text \<open>
  The body of the \<^verbatim>\<open>try\<close> block once the page is parsed; \<open>None\<close> stands for the
  \<^verbatim>\<open>ValueError\<close> that \<^verbatim>\<open>int\<close> can raise. First the part after the first
  indicator has given nothing: the second indicator, then the fallback.
\<close>

definition pages_from_total_span :: "node \<Rightarrow> int option" where
  "pages_from_total_span soup =
     (case find_class (u ''span'') (u ''profile_V2_votes_total'') ([], soup) of
        Some total_span \<Rightarrow>
          (case re_search rx_digits (text_of (snd total_span)) of
             Some g \<Rightarrow>
               (case int_of_str g of
                  Some total_ratings \<Rightarrow> Some ((total_ratings + 49) div 50)
                | None \<Rightarrow> None)
           | None \<Rightarrow> Some 1)
      | None \<Rightarrow> Some 1)"

definition pages_of_soup :: "node \<Rightarrow> int option" where
  "pages_of_soup soup =
     (case find_class (u ''div'') (u ''pagesFromTo'') ([], soup) of
        Some pages_from_to_div \<Rightarrow>
          (case re_search rx_total (text_of (snd pages_from_to_div)) of
             Some g \<Rightarrow>
               (case int_of_str g of
                  Some total_ratings \<Rightarrow> Some ((total_ratings + 49) div 50)
                | None \<Rightarrow> None)
           | None \<Rightarrow> pages_from_total_span soup)
      | None \<Rightarrow> pages_from_total_span soup)"

text \<open>
  \<^verbatim>\<open>except Exception\<close> turns a failed request and a \<^verbatim>\<open>ValueError\<close> alike into
  the result 0.
\<close>

definition get_total_pages :: "world \<Rightarrow> int \<times> world" where
  "get_total_pages w =
     (case http_get 1 w of
        (Some soup, w') \<Rightarrow>
          (case pages_of_soup soup of Some n \<Rightarrow> (n, w') | None \<Rightarrow> (0, w'))
      | (None, w') \<Rightarrow> (0, w'))"

text \<open>
  The two count indicators as the specification names them: the digits of the
  "from-to of TOTAL" summary, and the digits of the standalone display element. The
  first one that gives digits gives the total of the page.
\<close>

definition summary_digits :: "node \<Rightarrow> ustr option" where
  "summary_digits soup =
     (case find_class (u ''div'') (u ''pagesFromTo'') ([], soup) of
        Some d \<Rightarrow> re_search rx_total (text_of (snd d))
      | None \<Rightarrow> None)"

definition display_digits :: "node \<Rightarrow> ustr option" where
  "display_digits soup =
     (case find_class (u ''span'') (u ''profile_V2_votes_total'') ([], soup) of
        Some d \<Rightarrow> re_search rx_digits (text_of (snd d))
      | None \<Rightarrow> None)"

definition indicated_digits :: "node \<Rightarrow> ustr option" where
  "indicated_digits soup =
     (case summary_digits soup of Some g \<Rightarrow> Some g | None \<Rightarrow> display_digits soup)"

definition indicated_total :: "node \<Rightarrow> int option" where
  "indicated_total soup = map_option py_int (indicated_digits soup)"

section \<open>fetch_ratings_page\<close>

definition fetch_ratings_page :: "int \<Rightarrow> world \<Rightarrow> elem list \<times> world" where
  "fetch_ratings_page page_num w =
     (case http_get page_num w of
        (Some soup, w') \<Rightarrow> (find_all_class (u ''div'') (u ''item'') ([], soup), w')
      | (None, w') \<Rightarrow> ([], w'))"

section \<open>The standard library: strptime and strftime\<close>

text \<open>
  \<^verbatim>\<open>datetime.strptime(s, "%d.%m.%Y, %H:%M")\<close> compiles the format to the pattern
  \<^verbatim>\<open>(3[0-1]|[1-2]\d|0[1-9]|[1-9]| [1-9])\.(1[0-2]|0[1-9]|[1-9])\.(\d\d\d\d),\s+(2[0-3]|[0-1]\d|\d):([0-5]\d|\d)\<close>,
  matches it at the start of \<open>s\<close>, and raises \<^verbatim>\<open>ValueError\<close> when there is no
  match, when the match does not end where \<open>s\<close> ends, or when the numbers are not a
  date. A group is the list of its alternatives that match, in the order of the pattern,
  each with the rest of the input; the list monad then visits the matches in the order
  of the backtracking matcher, and the first one is the match.
\<close>

definition rng :: "char \<Rightarrow> char \<Rightarrow> nat \<Rightarrow> bool" where
  "rng lo hi c = (of_char lo \<le> c \<and> c \<le> of_char hi)"

definition two :: "(nat \<Rightarrow> bool) \<Rightarrow> (nat \<Rightarrow> bool) \<Rightarrow> ustr \<Rightarrow> (ustr \<times> ustr) list" where
  "two p q s = (case s of a # b # r \<Rightarrow> if p a \<and> q b then [([a, b], r)] else [] | _ \<Rightarrow> [])"

definition one :: "(nat \<Rightarrow> bool) \<Rightarrow> ustr \<Rightarrow> (ustr \<times> ustr) list" where
  "one p s = (case s of a # r \<Rightarrow> if p a then [([a], r)] else [] | _ \<Rightarrow> [])"

definition lit :: "nat \<Rightarrow> ustr \<Rightarrow> ustr list" where
  "lit c s = (case s of a # r \<Rightarrow> if a = c then [r] else [] | _ \<Rightarrow> [])"

definition grp_d :: "ustr \<Rightarrow> (ustr \<times> ustr) list" where
  "grp_d s = two (rng CHR ''3'' CHR ''3'') (rng CHR ''0'' CHR ''1'') s
           @ two (rng CHR ''1'' CHR ''2'') is_digit s
           @ two (rng CHR ''0'' CHR ''0'') (rng CHR ''1'' CHR ''9'') s
           @ one (rng CHR ''1'' CHR ''9'') s
           @ concat (map (\<lambda>r. one (rng CHR ''1'' CHR ''9'') r) (lit 32 s))"

definition grp_m :: "ustr \<Rightarrow> (ustr \<times> ustr) list" where
  "grp_m s = two (rng CHR ''1'' CHR ''1'') (rng CHR ''0'' CHR ''2'') s
           @ two (rng CHR ''0'' CHR ''0'') (rng CHR ''1'' CHR ''9'') s
           @ one (rng CHR ''1'' CHR ''9'') s"

definition grp_Y :: "ustr \<Rightarrow> (ustr \<times> ustr) list" where
  "grp_Y s = (if 4 \<le> length s \<and> list_all is_digit (take 4 s) then [(take 4 s, drop 4 s)] else [])"

definition grp_H :: "ustr \<Rightarrow> (ustr \<times> ustr) list" where
  "grp_H s = two (rng CHR ''2'' CHR ''2'') (rng CHR ''0'' CHR ''3'') s
           @ two (rng CHR ''0'' CHR ''1'') is_digit s
           @ one is_digit s"

definition grp_M :: "ustr \<Rightarrow> (ustr \<times> ustr) list" where
  "grp_M s = two (rng CHR ''0'' CHR ''5'') is_digit s @ one is_digit s"

text \<open>\<^verbatim>\<open>\s+\<close>: one or more spaces, the longest run first.\<close>

definition spaces1 :: "ustr \<Rightarrow> ustr list" where
  "spaces1 s = map (\<lambda>k. drop k s) (rev [1 ..< Suc (length (takeWhile is_space s))])"

definition strptime_matches :: "ustr \<Rightarrow> ((ustr \<times> ustr \<times> ustr) \<times> ustr) list" where
  "strptime_matches s =
     [((d, m, y), r10).
        (d, r1) \<leftarrow> grp_d s, r2 \<leftarrow> lit 46 r1,
        (m, r3) \<leftarrow> grp_m r2, r4 \<leftarrow> lit 46 r3,
        (y, r5) \<leftarrow> grp_Y r4, r6 \<leftarrow> lit 44 r5, r7 \<leftarrow> spaces1 r6,
        (H, r8) \<leftarrow> grp_H r7, r9 \<leftarrow> lit 58 r8,
        (M, r10) \<leftarrow> grp_M r9]"

definition days_in_month :: "int \<Rightarrow> int \<Rightarrow> int" where
  "days_in_month y m =
     (if m = 2 then (if y mod 4 = 0 \<and> (y mod 100 \<noteq> 0 \<or> y mod 400 = 0) then 29 else 28)
      else if m \<in> {4, 6, 9, 11} then 30 else 31)"

text \<open>
  The result is (year, month, day); \<open>None\<close> stands for \<^verbatim>\<open>ValueError\<close>. The groups
  have at most four digits, so \<^verbatim>\<open>int\<close> gives their value.
\<close>

definition strptime :: "ustr \<Rightarrow> (int \<times> int \<times> int) option" where
  "strptime s =
     (case strptime_matches s of
        [] \<Rightarrow> None
      | ((d, m, y), rest) # _ \<Rightarrow>
          if rest \<noteq> [] then None
          else if 1 \<le> py_int y \<and> py_int d \<le> days_in_month (py_int y) (py_int m)
          then Some (py_int y, py_int m, py_int d)
          else None)"

fun decimal :: "nat \<Rightarrow> ustr" where
  "decimal n = (if n < 10 then [48 + n] else decimal (n div 10) @ [48 + n mod 10])"

definition two_digits :: "int \<Rightarrow> ustr" where
  "two_digits n = [48 + nat (n div 10), 48 + nat (n mod 10)]"

text \<open>
  \<^verbatim>\<open>strftime("%Y-%m-%d")\<close> of a date. The C library prints the year: glibc does not
  pad a year below 1000, other platforms print four digits. The model follows glibc.
\<close>

definition strftime :: "int \<times> int \<times> int \<Rightarrow> ustr" where
  "strftime dt =
     (case dt of (y, m, d) \<Rightarrow> decimal (nat y) @ [45] @ two_digits m @ [45] @ two_digits d)"

section \<open>parse_rating_item\<close>

text \<open>
  The result is a Python dictionary: an association list in insertion order.
  \<open>dget\<close> is \<^verbatim>\<open>result[k]\<close>, which raises \<^verbatim>\<open>KeyError\<close> on a missing key, and
  \<open>dset\<close> is \<^verbatim>\<open>result[k] = v\<close>.
\<close>

type_synonym dict = "(string \<times> ustr) list"

definition dget :: "dict \<Rightarrow> string \<Rightarrow> exn + ustr" where
  "dget d k = (case map_of d k of Some v \<Rightarrow> Inr v | None \<Rightarrow> Inl KeyError)"

definition dset :: "string \<Rightarrow> ustr \<Rightarrow> dict \<Rightarrow> dict" where
  "dset k v d = AList.update k v d"

definition new_result :: dict where
  "new_result = [(''num'', []), (''nameRus'', []), (''nameEng'', []), (''rating'', []),
     (''year'', []), (''type'', []), (''duration'', []), (''date_rated'', [])]"

text \<open>
  The body of the \<^verbatim>\<open>try\<close> block, one definition for each commented section of the
  source, in their order.
\<close>

definition extract_num :: "elem \<Rightarrow> dict \<Rightarrow> exn + dict" where
  "extract_num item result =
     (case find_class (u ''div'') (u ''num'') item of
        Some num_div \<Rightarrow> Inr (dset ''num'' (strip (text_of (snd num_div))) result)
      | None \<Rightarrow> Inr result)"

definition extract_name_rus :: "elem \<Rightarrow> dict \<Rightarrow> exn + dict" where
  "extract_name_rus item result =
     (case select_name_link item of
        Some name_rus_link \<Rightarrow>
          (let full_name_text = strip (text_of (snd name_rus_link))
           in case rx_name_year [] full_name_text of
                Some (g1, g2) \<Rightarrow> Inr (dset ''year'' g2 (dset ''nameRus'' (strip g1) result))
              | None \<Rightarrow> Inr (dset ''nameRus'' full_name_text result))
      | None \<Rightarrow> Inr result)"

definition extract_name_eng :: "elem \<Rightarrow> dict \<Rightarrow> exn + dict" where
  "extract_name_eng item result =
     (case find_class (u ''div'') (u ''nameEng'') item of
        Some name_eng_div \<Rightarrow>
          (let result1 = dset ''nameEng'' (strip (text_of (snd name_eng_div))) result
           in case dget result1 ''nameEng'' of
                Inl e \<Rightarrow> Inl e
              | Inr v \<Rightarrow> Inr (if v = [160] then dset ''nameEng'' [] result1 else result1))
      | None \<Rightarrow> Inr result)"

text \<open>The loop over the divs of the vote widget; it stops at the first div with both markers.\<close>

fun my_vote_loop :: "elem list \<Rightarrow> dict \<Rightarrow> dict" where
  "my_vote_loop [] result = result"
| "my_vote_loop (d # ds) result =
     (case class_attr (snd d) of
        Some cl \<Rightarrow>
          if contains (u ''myVote'') (join_sp cl) \<and> contains (u ''show_vote_'') (join_sp cl)
          then dset ''rating'' (strip (text_of (snd d))) result
          else my_vote_loop ds result
      | None \<Rightarrow> my_vote_loop ds result)"

text \<open>The loop over the script tags of the item; it stops at the first payload that matches.\<close>

fun script_loop :: "elem list \<Rightarrow> dict \<Rightarrow> dict" where
  "script_loop [] result = result"
| "script_loop (script # scripts) result =
     (case string_of (snd script) of
        Some str \<Rightarrow>
          if str \<noteq> [] \<and> contains (u ''rating:'') str
          then (case re_search rx_rating str of
                  Some g \<Rightarrow> dset ''rating'' g result
                | None \<Rightarrow> script_loop scripts result)
          else script_loop scripts result
      | None \<Rightarrow> script_loop scripts result)"

definition rating_in_widget :: "elem \<Rightarrow> dict \<Rightarrow> exn + dict" where
  "rating_in_widget item result =
     (case find_class (u ''div'') (u ''vote_widget'') item of
        Some vote_widget \<Rightarrow>
          (let result1 = my_vote_loop (find_all_named (u ''div'') vote_widget) result
           in case dget result1 ''rating'' of
                Inl e \<Rightarrow> Inl e
              | Inr v \<Rightarrow>
                  if v = [] then Inr (script_loop (find_all_named (u ''script'') item) result1)
                  else Inr result1)
      | None \<Rightarrow> Inr result)"

definition extract_rating :: "elem \<Rightarrow> dict \<Rightarrow> exn + dict" where
  "extract_rating item result =
     (case rating_in_widget item result of
        Inl e \<Rightarrow> Inl e
      | Inr result2 \<Rightarrow>
          (case dget result2 ''rating'' of
             Inl e \<Rightarrow> Inl e
           | Inr v \<Rightarrow>
               if v = [] then
                 (case select_rate_now item of
                    Some rate_now_div \<Rightarrow>
                      (case attr (u ''vote'') (snd rate_now_div) of
                         Some vote \<Rightarrow> Inr (dset ''rating'' vote result2)
                       | None \<Rightarrow> Inr result2)
                  | None \<Rightarrow> Inr result2)
               else Inr result2))"

definition extract_duration :: "elem \<Rightarrow> dict \<Rightarrow> exn + dict" where
  "extract_duration item result =
     (case find_class (u ''div'') (u ''rating'') item of
        Some rating_div \<Rightarrow>
          (case find_duration_span rating_div of
             Some duration_span \<Rightarrow>
               (case re_search rx_digits (text_of (snd duration_span)) of
                  Some g \<Rightarrow> Inr (dset ''duration'' g result)
                | None \<Rightarrow> Inr result)
           | None \<Rightarrow> Inr result)
      | None \<Rightarrow> Inr result)"

definition extract_content_type :: "elem \<Rightarrow> dict \<Rightarrow> exn + dict" where
  "extract_content_type item result =
     (case select_type_div item of
        Some type_div \<Rightarrow>
          (case attr (u ''type'') (snd type_div) of
             Some t \<Rightarrow> Inr (dset ''type'' t result)
           | None \<Rightarrow> Inr (dset ''type'' (u ''film'') result))
      | None \<Rightarrow> Inr (dset ''type'' (u ''film'') result))"

definition extract_date :: "elem \<Rightarrow> dict \<Rightarrow> exn + dict" where
  "extract_date item result =
     (case find_class (u ''div'') (u ''date'') item of
        Some date_div \<Rightarrow>
          (let date_str = strip (text_of (snd date_div))
           in case strptime date_str of
                Some date_obj \<Rightarrow> Inr (dset ''date_rated'' (strftime date_obj) result)
              | None \<Rightarrow> Inr (dset ''date_rated'' date_str result))
      | None \<Rightarrow> Inr result)"

definition sections :: "elem \<Rightarrow> (dict \<Rightarrow> exn + dict) list" where
  "sections item = [extract_num item, extract_name_rus item, extract_name_eng item,
     extract_rating item, extract_duration item, extract_content_type item, extract_date item]"

text \<open>
  A library call can raise for reasons outside this model (\<^verbatim>\<open>RecursionError\<close> on a
  deep tree, \<^verbatim>\<open>MemoryError\<close>, ...). \<open>fault = Some k\<close> says that section number \<open>k\<close>
  (from 0) raises such an exception before it assigns anything; \<open>None\<close> says that no
  section does. \<open>run_body\<close> runs the sections on the mutable \<^verbatim>\<open>result\<close> and returns
  it as it is when the block ends or an exception leaves it, with the exception.
\<close>

fun run_body :: "(dict \<Rightarrow> exn + dict) list \<Rightarrow> nat option \<Rightarrow> dict \<Rightarrow> dict \<times> exn option" where
  "run_body [] fault result = (result, None)"
| "run_body (b # bs) fault result =
     (if fault = Some 0 then (result, Some Unexpected)
      else case b result of
             Inl e \<Rightarrow> (result, Some e)
           | Inr result' \<Rightarrow> run_body bs (map_option (\<lambda>k. k - 1) fault) result')"

text \<open>
  The handler of \<^verbatim>\<open>except Exception\<close> reads \<^verbatim>\<open>result['num']\<close> for its message
  and returns \<^verbatim>\<open>result\<close>.
\<close>

definition parse_rating_item :: "nat option \<Rightarrow> elem \<Rightarrow> exn + dict" where
  "parse_rating_item fault item =
     (case run_body (sections item) fault new_result of
        (result, None) \<Rightarrow> Inr result
      | (result, Some e) \<Rightarrow>
          (case dget result ''num'' of Inl k \<Rightarrow> Inl k | Inr n \<Rightarrow> Inr result))"

section \<open>extract_from_html and export_to_csv\<close>

text \<open>\<^verbatim>\<open>rating_data["nameRus"] or rating_data["nameEng"]\<close>\<close>

definition has_name :: "dict \<Rightarrow> exn + bool" where
  "has_name rating_data =
     (case dget rating_data ''nameRus'' of
        Inl e \<Rightarrow> Inl e
      | Inr a \<Rightarrow>
          if a \<noteq> [] then Inr True
          else (case dget rating_data ''nameEng'' of Inl e \<Rightarrow> Inl e | Inr b \<Rightarrow> Inr (b \<noteq> [])))"

text \<open>
  \<open>faults\<close> gives, for every item, where its extraction meets an exception of the
  library (see \<open>run_body\<close>).
\<close>

fun extract_loop :: "(elem \<Rightarrow> nat option) \<Rightarrow> elem list \<Rightarrow> dict list \<Rightarrow> exn + dict list" where
  "extract_loop faults [] results = Inr results"
| "extract_loop faults (item # items) results =
     (case parse_rating_item (faults item) item of
        Inl e \<Rightarrow> Inl e
      | Inr rating_data \<Rightarrow>
          (case has_name rating_data of
             Inl e \<Rightarrow> Inl e
           | Inr b \<Rightarrow> extract_loop faults items (if b then results @ [rating_data] else results)))"

definition extract_from_html :: "(elem \<Rightarrow> nat option) \<Rightarrow> node \<Rightarrow> exn + dict list" where
  "extract_from_html faults soup =
     extract_loop faults (find_all_class (u ''div'') (u ''item'') ([], soup)) []"

text \<open>The values read by the progress message printed for every retained record.\<close>

definition debug_line :: "dict \<Rightarrow> exn + unit" where
  "debug_line rating_data =
     (case dget rating_data ''num'' of
        Inl e \<Rightarrow> Inl e
      | Inr n \<Rightarrow>
          (case dget rating_data ''nameRus'' of
             Inl e \<Rightarrow> Inl e
           | Inr a \<Rightarrow> (case dget rating_data ''rating'' of Inl e \<Rightarrow> Inl e | Inr r \<Rightarrow> Inr ())))"

fun items_loop :: "(elem \<Rightarrow> nat option) \<Rightarrow> elem list \<Rightarrow> dict list \<Rightarrow> exn + dict list" where
  "items_loop faults [] all_ratings = Inr all_ratings"
| "items_loop faults (item # items) all_ratings =
     (case parse_rating_item (faults item) item of
        Inl e \<Rightarrow> Inl e
      | Inr rating_data \<Rightarrow>
          (case has_name rating_data of
             Inl e \<Rightarrow> Inl e
           | Inr b \<Rightarrow>
               if b then (case debug_line rating_data of
                            Inl e \<Rightarrow> Inl e
                          | Inr _ \<Rightarrow> items_loop faults items (all_ratings @ [rating_data]))
               else items_loop faults items all_ratings))"

text \<open>
  The loop over \<^verbatim>\<open>range(1, total_pages + 1)\<close>, given as the list of the pages still
  to visit. A page without items is left by \<^verbatim>\<open>continue\<close>, before the pause.
\<close>

fun pages_loop ::
  "(elem \<Rightarrow> nat option) \<Rightarrow> int \<Rightarrow> int list \<Rightarrow> dict list \<Rightarrow> world \<Rightarrow> exn + dict list \<times> world" where
  "pages_loop faults total_pages [] all_ratings w = Inr (all_ratings, w)"
| "pages_loop faults total_pages (page # pages) all_ratings w =
     (case fetch_ratings_page page w of
        (items, w1) \<Rightarrow>
          if items = [] then pages_loop faults total_pages pages all_ratings w1
          else (case items_loop faults items all_ratings of
                  Inl e \<Rightarrow> Inl e
                | Inr all_ratings' \<Rightarrow>
                    pages_loop faults total_pages pages all_ratings'
                      (if page < total_pages then w1\<lparr>slept := slept w1 + 1\<rparr> else w1)))"

definition fieldnames :: "string list" where
  "fieldnames = [''num'', ''nameRus'', ''nameEng'', ''rating'', ''year'', ''type'',
     ''duration'', ''date_rated'']"

text \<open>
  \<^verbatim>\<open>DictWriter.writerow\<close>: a key outside the field names raises \<^verbatim>\<open>ValueError\<close>
  (here \<open>None\<close>); a missing one gives the empty string.
\<close>

definition dict_to_list :: "dict \<Rightarrow> ustr list option" where
  "dict_to_list d =
     (if list_all (\<lambda>k. k \<in> set fieldnames) (map fst d)
      then Some (map (\<lambda>k. case map_of d k of Some v \<Rightarrow> v | None \<Rightarrow> []) fieldnames)
      else None)"

text \<open>
  The \<^verbatim>\<open>try\<close> block that writes the file. When it fails the function returns
  \<^verbatim>\<open>False\<close>; what is left of the file then is not modelled.
\<close>

definition write_csv :: "dict list \<Rightarrow> world \<Rightarrow> bool \<times> world" where
  "write_csv all_ratings w =
     (if csv_ok w
      then (case those (map dict_to_list all_ratings) of
              Some rows \<Rightarrow> (True, w\<lparr>csv := Some (map u fieldnames # rows)\<rparr>)
            | None \<Rightarrow> (False, w))
      else (False, w))"

definition export_to_csv :: "(elem \<Rightarrow> nat option) \<Rightarrow> world \<Rightarrow> exn + bool \<times> world" where
  "export_to_csv faults w =
     (case get_total_pages w of
        (total_pages, w0) \<Rightarrow>
          if total_pages = 0 then Inr (False, w0)
          else (case pages_loop faults total_pages [1 .. total_pages] [] w0 of
                  Inl e \<Rightarrow> Inl e
                | Inr (all_ratings, w1) \<Rightarrow> Inr (write_csv all_ratings w1)))"

section \<open>Notions used to state the properties\<close>

text \<open>The dictionary with the eight keys of \<open>new_result\<close> and the given values.\<close>

abbreviation (input) result_with ::
  "ustr \<Rightarrow> ustr \<Rightarrow> ustr \<Rightarrow> ustr \<Rightarrow> ustr \<Rightarrow> ustr \<Rightarrow> ustr \<Rightarrow> ustr \<Rightarrow> dict" where
  "result_with n r e g y t du da \<equiv>
     [(''num'', n), (''nameRus'', r), (''nameEng'', e), (''rating'', g),
      (''year'', y), (''type'', t), (''duration'', du), (''date_rated'', da)]"

text \<open>The keys that each section of the \<^verbatim>\<open>try\<close> block assigns (sections counted from 0).\<close>

definition section_keys :: "nat \<Rightarrow> string list" where
  "section_keys k =
     (if k < 7
      then [ [''num''], [''nameRus'', ''year''], [''nameEng''], [''rating''],
             [''duration''], [''type''], [''date_rated''] ] ! k
      else [])"

text \<open>
  The three rating signals. (1) The text of the first div below \<open>w\<close> whose class string
  holds both markers. (2) The digits of the first script payload of the item that matches
  \<^verbatim>\<open>rating: '<digits>'\<close>. (3) The \<^verbatim>\<open>vote\<close> attribute of the first
  \<^verbatim>\<open>div.rateNow\<close> that has one.
\<close>

definition both_markers :: "node \<Rightarrow> bool" where
  "both_markers t =
     (case class_attr t of
        Some cl \<Rightarrow> contains (u ''myVote'') (join_sp cl) \<and> contains (u ''show_vote_'') (join_sp cl)
      | None \<Rightarrow> False)"

definition display_vote :: "elem \<Rightarrow> ustr option" where
  "display_vote w =
     map_option (\<lambda>d. strip (text_of (snd d)))
       (List.find (\<lambda>d. both_markers (snd d)) (find_all_named (u ''div'') w))"

definition payload_rating :: "elem \<Rightarrow> ustr option" where
  "payload_rating script =
     (case string_of (snd script) of Some str \<Rightarrow> re_search rx_rating str | None \<Rightarrow> None)"

definition script_rating :: "elem \<Rightarrow> ustr option" where
  "script_rating item =
     (case List.find (\<lambda>s. payload_rating s \<noteq> None) (find_all_named (u ''script'') item) of
        Some s \<Rightarrow> payload_rating s
      | None \<Rightarrow> None)"

definition vote_attribute :: "elem \<Rightarrow> ustr option" where
  "vote_attribute item =
     (case select_rate_now item of Some d \<Rightarrow> attr (u ''vote'') (snd d) | None \<Rightarrow> None)"

definition or_empty :: "ustr option \<Rightarrow> ustr" where
  "or_empty x = (case x of Some v \<Rightarrow> v | None \<Rightarrow> [])"

text \<open>
  The rating as the specification words it: the three signals of the fragment in their
  order, the first one present wins, the empty string when none is.
\<close>

definition rating_as_stated :: "elem \<Rightarrow> ustr" where
  "rating_as_stated item =
     (case display_vote item of
        Some v \<Rightarrow> v
      | None \<Rightarrow> (case script_rating item of Some g \<Rightarrow> g | None \<Rightarrow> or_empty (vote_attribute item)))"

text \<open>
  The rating with the gate of the source: signals (1) and (2) count only when the item
  has a vote widget, signal (1) is looked for inside the widget and gives way when its
  text is empty.
\<close>

definition rating_gated :: "elem \<Rightarrow> ustr" where
  "rating_gated item =
     (case find_class (u ''div'') (u ''vote_widget'') item of
        Some w \<Rightarrow>
          if or_empty (display_vote w) \<noteq> [] then or_empty (display_vote w)
          else (case script_rating item of Some g \<Rightarrow> g | None \<Rightarrow> or_empty (vote_attribute item))
      | None \<Rightarrow> or_empty (vote_attribute item))"

text \<open>
  The value that each of the other sections leaves in its field when it starts from the
  empty string: the trimmed text of the number element, the name and the year from the
  name link, the original title, the duration, the content type and the rating date.
\<close>

definition num_text :: "elem \<Rightarrow> ustr" where
  "num_text item =
     (case find_class (u ''div'') (u ''num'') item of
        Some d \<Rightarrow> strip (text_of (snd d))
      | None \<Rightarrow> [])"

definition name_year :: "elem \<Rightarrow> ustr \<times> ustr" where
  "name_year item =
     (case select_name_link item of
        Some l \<Rightarrow>
          (case rx_name_year [] (strip (text_of (snd l))) of
             Some (g1, g2) \<Rightarrow> (strip g1, g2)
           | None \<Rightarrow> (strip (text_of (snd l)), []))
      | None \<Rightarrow> ([], []))"

definition name_eng :: "elem \<Rightarrow> ustr" where
  "name_eng item =
     (case find_class (u ''div'') (u ''nameEng'') item of
        Some d \<Rightarrow> if strip (text_of (snd d)) = [160] then [] else strip (text_of (snd d))
      | None \<Rightarrow> [])"

definition duration_text :: "elem \<Rightarrow> ustr" where
  "duration_text item =
     (case find_class (u ''div'') (u ''rating'') item of
        Some rd \<Rightarrow>
          (case find_duration_span rd of
             Some sp \<Rightarrow> or_empty (re_search rx_digits (text_of (snd sp)))
           | None \<Rightarrow> [])
      | None \<Rightarrow> [])"

definition content_type :: "elem \<Rightarrow> ustr" where
  "content_type item =
     (case select_type_div item of
        Some d \<Rightarrow> (case attr (u ''type'') (snd d) of Some t \<Rightarrow> t | None \<Rightarrow> u ''film'')
      | None \<Rightarrow> u ''film'')"

definition date_text :: "elem \<Rightarrow> ustr" where
  "date_text item =
     (case find_class (u ''div'') (u ''date'') item of
        Some d \<Rightarrow>
          (case strptime (strip (text_of (snd d))) of
             Some date_obj \<Rightarrow> strftime date_obj
           | None \<Rightarrow> strip (text_of (snd d)))
      | None \<Rightarrow> [])"

text \<open>
  What a field written by section \<open>j\<close> holds when the extraction is cut at \<open>fault\<close>:
  the value \<open>v\<close> of the section if it was completed, the initial empty string if not.
\<close>

definition reached :: "nat option \<Rightarrow> nat \<Rightarrow> ustr \<Rightarrow> ustr" where
  "reached fault j v = (case fault of None \<Rightarrow> v | Some k \<Rightarrow> if j < k then v else [])"

text \<open>
  A text that ends in a parenthesized four-digit year: the part before the parenthesis
  and the four digits. The parentheses are the code points 40 and 41.
\<close>

definition year_suffix :: "ustr \<Rightarrow> (ustr \<times> ustr) option" where
  "year_suffix s =
     (let t = drop (length s - 6) s; y = take 4 (drop 1 t)
      in if length t = 6 \<and> starts_with [40] t \<and> list_all is_digit y \<and> drop 5 t = [41]
         then Some (take (length s - 6) s, y) else None)"

text \<open>At least one of the two name fields is a non-empty string.\<close>

definition name_nonempty :: "dict \<Rightarrow> bool" where
  "name_nonempty d =
     ((case map_of d ''nameRus'' of Some v \<Rightarrow> v \<noteq> [] | None \<Rightarrow> False)
      \<or> (case map_of d ''nameEng'' of Some v \<Rightarrow> v \<noteq> [] | None \<Rightarrow> False))"

text \<open>
  The records that listing page \<open>page\<close> adds to the accumulator when it is asked for by
  the request number \<open>k\<close> of the run: none when the request fails, otherwise the
  records of its fragments that have a name.
\<close>

definition page_records :: "(elem \<Rightarrow> nat option) \<Rightarrow> world \<Rightarrow> nat \<Rightarrow> int \<Rightarrow> dict list" where
  "page_records faults w k page =
     (case net w k page of
        Some soup \<Rightarrow>
          filter name_nonempty
            (map (\<lambda>item. projr (parse_rating_item (faults item) item))
               (find_all_class (u ''div'') (u ''item'') ([], soup)))
      | None \<Rightarrow> [])"

section \<open>Example inputs\<close>

text \<open>A world in which every request gets the same document, and one without network.\<close>

definition world_of :: "node \<Rightarrow> world" where
  "world_of soup = \<lparr>net = (\<lambda>k p. Some soup), sent = [], slept = 0, csv_ok = True, csv = None\<rparr>"

definition offline :: world where
  "offline = \<lparr>net = (\<lambda>k p. None), sent = [], slept = 0, csv_ok = True, csv = None\<rparr>"

definition document :: "node list \<Rightarrow> node" where
  "document ks = Tag (u ''[document]'') None [] ks"

text \<open>A first listing page whose summary reads "1-50 (U+0438)(U+0437) t".\<close>

definition page_with_total :: "ustr \<Rightarrow> node" where
  "page_with_total t = document
     [Tag (u ''div'') (Some [u ''pagesFromTo'']) []
        [Str NavigableString (u ''1-50 '' @ [1080, 1079, 32] @ t)]]"

text \<open>Fragments of a listing page.\<close>

definition item_of :: "node list \<Rightarrow> elem" where
  "item_of ks = ([], Tag (u ''div'') (Some [u ''item'']) [] ks)"

definition text_node :: "ustr \<Rightarrow> node" where
  "text_node s = Str NavigableString s"

definition name_link :: "ustr \<Rightarrow> node" where
  "name_link s = Tag (u ''div'') (Some [u ''nameRus'']) [] [Tag (u ''a'') None [] [text_node s]]"

definition date_div :: "ustr \<Rightarrow> node" where
  "date_div s = Tag (u ''div'') (Some [u ''date'']) [] [text_node s]"

definition rate_now :: "ustr \<Rightarrow> node" where
  "rate_now v = Tag (u ''div'') (Some [u ''rateNow'']) [(u ''vote'', v)] []"

definition my_vote :: "ustr \<Rightarrow> node" where
  "my_vote v = Tag (u ''div'') (Some [u ''show_vote_935940'', u ''myVote'']) [] [text_node v]"

definition vote_widget :: "node list \<Rightarrow> node" where
  "vote_widget ks = Tag (u ''div'') (Some [u ''vote_widget'']) [] ks"

text \<open>A script whose payload is \<^verbatim>\<open>ur_data.push({film: 935940, rating: '7'});\<close>\<close>

definition script7 :: node where
  "script7 = Tag (u ''script'') None []
     [Str Script (u ''ur_data.push({film: 935940, rating: '' @ [39] @ u ''7'' @ [39] @ u ''});'')]"

definition name_eng_div :: "ustr \<Rightarrow> node" where
  "name_eng_div s = Tag (u ''div'') (Some [u ''nameEng'']) [] [text_node s]"

text \<open>
  A listing page with three fragments: one with a local title, one without any title
  but with a vote, one with an original title only.
\<close>

definition three_items :: node where
  "three_items = document
     [Tag (u ''div'') (Some [u ''item'']) [] [name_link (u ''Foo (1999)'')],
      Tag (u ''div'') (Some [u ''item'']) [] [rate_now (u ''8'')],
      Tag (u ''div'') (Some [u ''item'']) [] [name_eng_div (u ''Bar'')]]"

text \<open>
  A world in which the count request gets a first page with the total 51, and after it
  only the listing page 2 can be fetched.
\<close>

definition page_one_lost :: world where
  "page_one_lost =
     \<lparr>net = (\<lambda>k p. if k = 0 then Some (page_with_total (u ''51''))
                    else if p = 2 then Some three_items else None),
      sent = [], slept = 0, csv_ok = True, csv = None\<rparr>"

text \<open>A link text in two lines: "A", a line feed, "B (1999)".\<close>

definition two_line_title :: ustr where
  "two_line_title = u ''A'' @ [10] @ u ''B (1999)''"

section \<open>Properties\<close>

subsection \<open>Evaluation of the examples\<close>

lemmas string_ev = u_def is_space_def is_digit_def digit_value_def py_int_def starts_with_def
  strip_def lstrip_def rstrip_def

lemmas soup_ev = find_class_def find_all_class_def find_all_named_def named_def class_is_def
  css_class_def attr_def document_def

subsection \<open>The page count\<close>

lemma ceil50: "\<lceil>real_of_int t / 50\<rceil> = (t + 49) div 50"
proof -
  have "\<lceil>real_of_int t / 50\<rceil> = - (- t div 50)"
    using ceiling_divide_eq_div [of t 50] by simp
  also have "\<dots> = (t + 49) div 50"
    by linarith
  finally show ?thesis .
qed

lemma pages_of_soup_digits:
  "pages_of_soup soup =
     (case indicated_digits soup of
        Some g \<Rightarrow> map_option (\<lambda>t. (t + 49) div 50) (int_of_str g)
      | None \<Rightarrow> Some 1)"
  by (simp add: pages_of_soup_def pages_from_total_span_def indicated_digits_def
      summary_digits_def display_digits_def split: option.splits)

lemma get_total_pages_fetched:
  "net w (length (sent w)) 1 = Some soup
     \<Longrightarrow> fst (get_total_pages w) = (case pages_of_soup soup of Some n \<Rightarrow> n | None \<Rightarrow> 0)"
  by (simp add: get_total_pages_def http_get_def split: option.splits)

lemma get_total_pages_world: "snd (get_total_pages w) = w\<lparr>sent := sent w @ [1]\<rparr>"
  by (simp add: get_total_pages_def http_get_def split: option.splits)

lemma net_world_of: "net (world_of s) (length (sent (world_of s))) p = Some s"
  by (simp add: world_of_def)

text \<open>
  What \<open>get_total_pages\<close> returns when the first listing page is fetched: the ceiling
  of the fiftieth of the total that the first indicator with digits gives, 0 when the
  digits are too many for \<^verbatim>\<open>int\<close>, and 1 when no indicator gives digits.
\<close>

lemma get_total_pages_ceiling:
  assumes "net w (length (sent w)) 1 = Some soup"
  shows "fst (get_total_pages w) =
           (case indicated_digits soup of
              Some g \<Rightarrow> if length g \<le> 4300 then \<lceil>real_of_int (py_int g) / 50\<rceil> else 0
            | None \<Rightarrow> 1)"
  using assms
  by (simp add: get_total_pages_fetched pages_of_soup_digits ceil50 int_of_str_def
      int_max_str_digits_def split: option.splits)

lemma digits_examples:
  "indicated_digits (page_with_total (u ''458'')) = Some (u ''458'')"
  "indicated_digits (page_with_total (u ''450'')) = Some (u ''450'')"
  "indicated_digits (page_with_total (u ''51'')) = Some (u ''51'')"
  "indicated_digits (page_with_total (u ''0'')) = Some (u ''0'')"
  "indicated_digits (document []) = None"
  by (simp_all add: indicated_digits_def summary_digits_def display_digits_def
      page_with_total_def rx_total_def string_ev soup_ev)

lemma digits_too_long:
  "indicated_digits (page_with_total (replicate 4301 57)) = Some (replicate 4301 57)"
proof -
  have "is_digit 57" and "\<not> is_space 57"
    by (simp_all add: is_digit_def digit_value_def is_space_def)
  then have "rx_total (1080 # 1079 # 32 # replicate 4301 57) = Some (replicate 4301 57)"
    by (simp add: rx_total_def starts_with_def is_space_def takeWhile_replicate
        dropWhile_replicate)
  then show ?thesis
    by (simp add: indicated_digits_def summary_digits_def page_with_total_def soup_ev
        rx_total_def starts_with_def u_def)
qed

lemma get_total_pages_examples:
  "fst (get_total_pages (world_of (page_with_total (u ''458'')))) = 10"
  "fst (get_total_pages (world_of (page_with_total (u ''450'')))) = 9"
  "fst (get_total_pages (world_of (page_with_total (u ''51'')))) = 2"
  "fst (get_total_pages (world_of (page_with_total (u ''0'')))) = 0"
  "fst (get_total_pages (world_of (page_with_total (replicate 4301 57)))) = 0"
  "fst (get_total_pages (world_of (document []))) = 1"
proof -
  have v: "py_int (u ''458'') = 458" "py_int (u ''450'') = 450" "py_int (u ''51'') = 51"
    "py_int (u ''0'') = 0"
    and l: "length (u ''458'') = 3" "length (u ''450'') = 3" "length (u ''51'') = 2"
    "length (u ''0'') = 1"
    by (simp_all add: string_ev)
  have c: "\<lceil>real_of_int 458 / 50\<rceil> = 10" "\<lceil>real_of_int 450 / 50\<rceil> = 9"
    "\<lceil>real_of_int 51 / 50\<rceil> = 2"
    by (simp_all add: ceil50)
  show "fst (get_total_pages (world_of (page_with_total (u ''458'')))) = 10"
    using get_total_pages_ceiling [OF net_world_of, of "page_with_total (u ''458'')"]
    by (simp add: digits_examples v l c)
  show "fst (get_total_pages (world_of (page_with_total (u ''450'')))) = 9"
    using get_total_pages_ceiling [OF net_world_of, of "page_with_total (u ''450'')"]
    by (simp add: digits_examples v l c)
  show "fst (get_total_pages (world_of (page_with_total (u ''51'')))) = 2"
    using get_total_pages_ceiling [OF net_world_of, of "page_with_total (u ''51'')"]
    by (simp add: digits_examples v l c)
  show "fst (get_total_pages (world_of (page_with_total (u ''0'')))) = 0"
    using get_total_pages_ceiling [OF net_world_of, of "page_with_total (u ''0'')"]
    by (simp add: digits_examples v l)
  show "fst (get_total_pages (world_of (page_with_total (replicate 4301 57)))) = 0"
    using get_total_pages_ceiling [OF net_world_of, of "page_with_total (replicate 4301 57)"]
    by (simp add: digits_too_long)
  show "fst (get_total_pages (world_of (document []))) = 1"
    using get_total_pages_ceiling [OF net_world_of, of "document []"]
    by (simp add: digits_examples)
qed

subsection \<open>The sections of parse_rating_item\<close>

lemma extract_num_eq:
  "extract_num item (result_with [] r e g y t du da)
     = Inr (result_with (num_text item) r e g y t du da)"
  by (simp add: extract_num_def num_text_def dset_def split: option.splits)

lemma extract_name_rus_eq:
  "extract_name_rus item (result_with n [] e g [] t du da)
     = Inr (result_with n (fst (name_year item)) e g (snd (name_year item)) t du da)"
  by (simp add: extract_name_rus_def name_year_def dset_def Let_def
      split: option.splits prod.splits)

lemma extract_name_eng_eq:
  "extract_name_eng item (result_with n r [] g y t du da)
     = Inr (result_with n r (name_eng item) g y t du da)"
  by (simp add: extract_name_eng_def name_eng_def dset_def dget_def Let_def split: option.splits)

lemma my_vote_loop_eq:
  "my_vote_loop ds (result_with n r e g y t du da)
     = result_with n r e
         (case List.find (\<lambda>d. both_markers (snd d)) ds of
            Some d \<Rightarrow> strip (text_of (snd d)) | None \<Rightarrow> g) y t du da"
  by (induction ds) (simp_all add: both_markers_def dset_def split: option.splits)

lemma re_search_contains:
  "re_search rx_rating s = Some g \<Longrightarrow> s \<noteq> [] \<and> contains (u ''rating:'') s"
  by (induction s) (auto simp: rx_rating_def starts_with_def u_def split: option.splits if_splits)

lemma re_search_rating_nonempty: "re_search rx_rating s = Some g \<Longrightarrow> g \<noteq> []"
  by (induction s) (auto simp: rx_rating_def Let_def split: option.splits if_splits)

lemma payload_rating_nonempty: "payload_rating s = Some g \<Longrightarrow> g \<noteq> []"
  by (auto simp: payload_rating_def dest: re_search_rating_nonempty split: option.splits)

lemma script_loop_eq:
  "script_loop ss (result_with n r e g y t du da)
     = result_with n r e
         (case List.find (\<lambda>s. payload_rating s \<noteq> None) ss of
            Some s \<Rightarrow> or_empty (payload_rating s) | None \<Rightarrow> g) y t du da"
  by (induction ss)
    (auto simp add: payload_rating_def or_empty_def dset_def dest: re_search_contains
      split: option.splits)

lemma extract_rating_eq:
  "extract_rating item (result_with n r e [] y t du da)
     = Inr (result_with n r e (rating_gated item) y t du da)"
  by (auto simp add: extract_rating_def rating_in_widget_def rating_gated_def my_vote_loop_eq
      script_loop_eq display_vote_def script_rating_def vote_attribute_def or_empty_def
      dget_def dset_def Let_def
      dest: payload_rating_nonempty split: option.splits)

lemma extract_duration_eq:
  "extract_duration item (result_with n r e g y t [] da)
     = Inr (result_with n r e g y t (duration_text item) da)"
  by (simp add: extract_duration_def duration_text_def or_empty_def dset_def split: option.splits)

lemma extract_content_type_eq:
  "extract_content_type item (result_with n r e g y [] du da)
     = Inr (result_with n r e g y (content_type item) du da)"
  by (simp add: extract_content_type_def content_type_def dset_def split: option.splits)

lemma extract_date_eq:
  "extract_date item (result_with n r e g y t du [])
     = Inr (result_with n r e g y t du (date_text item))"
  by (simp add: extract_date_def date_text_def dset_def Let_def split: option.splits)

lemmas section_eqs = extract_num_eq extract_name_rus_eq extract_name_eng_eq extract_rating_eq
  extract_duration_eq extract_content_type_eq extract_date_eq

lemma run_body_late: "length bs \<le> k \<Longrightarrow> run_body bs (Some k) r = run_body bs None r"
proof (induction bs arbitrary: k r)
  case Nil
  then show ?case by simp
next
  case (Cons b bs)
  then have "0 < k" and "length bs \<le> k - 1" by simp_all
  with Cons.IH [of "k - 1"] show ?case
    by (simp split: sum.splits)
qed

lemma run_body_None:
  "run_body (sections item) None new_result =
     (result_with (num_text item) (fst (name_year item)) (name_eng item) (rating_gated item)
        (snd (name_year item)) (content_type item) (duration_text item) (date_text item), None)"
  by (simp add: sections_def new_result_def section_eqs)

lemma run_body_Some:
  assumes "k < 7"
  shows "run_body (sections item) (Some k) new_result =
     (result_with (reached (Some k) 0 (num_text item)) (reached (Some k) 1 (fst (name_year item)))
        (reached (Some k) 2 (name_eng item)) (reached (Some k) 3 (rating_gated item))
        (reached (Some k) 1 (snd (name_year item))) (reached (Some k) 5 (content_type item))
        (reached (Some k) 4 (duration_text item)) (reached (Some k) 6 (date_text item)),
      Some Unexpected)"
proof -
  from assms consider "k = 0" | "k = 1" | "k = 2" | "k = 3" | "k = 4" | "k = 5" | "k = 6"
    by linarith
  then show ?thesis
    by cases (simp_all add: sections_def new_result_def section_eqs reached_def)
qed

text \<open>The record that \<open>parse_rating_item\<close> returns, for every item and every fault.\<close>

lemma parse_rating_item_eq:
  "parse_rating_item fault item =
     Inr (result_with (reached fault 0 (num_text item)) (reached fault 1 (fst (name_year item)))
        (reached fault 2 (name_eng item)) (reached fault 3 (rating_gated item))
        (reached fault 1 (snd (name_year item))) (reached fault 5 (content_type item))
        (reached fault 4 (duration_text item)) (reached fault 6 (date_text item)))"
proof (cases fault)
  case None
  then show ?thesis
    by (simp add: parse_rating_item_def run_body_None reached_def)
next
  case (Some k)
  show ?thesis
  proof (cases "k < 7")
    case True
    then show ?thesis
      using Some by (simp add: parse_rating_item_def run_body_Some dget_def)
  next
    case False
    then have "run_body (sections item) (Some k) new_result
        = run_body (sections item) None new_result"
      by (intro run_body_late) (simp add: sections_def)
    with False Some show ?thesis
      by (simp add: parse_rating_item_def run_body_None reached_def)
  qed
qed

subsection \<open>Evaluation of parse_rating_item on the examples\<close>

lemmas item_ev = item_of_def text_node_def name_link_def date_div_def rate_now_def my_vote_def
  vote_widget_def script7_def select_rate_now_def select_name_link_def select_type_div_def
  find_duration_span_def class_attr_def both_markers_def

lemmas field_ev = num_text_def name_year_def name_eng_def rating_gated_def duration_text_def
  content_type_def date_text_def display_vote_def script_rating_def payload_rating_def
  vote_attribute_def or_empty_def rx_rating_def rx_digits_def

lemmas strptime_ev = strptime_def strptime_matches_def grp_d_def grp_m_def grp_Y_def grp_H_def
  grp_M_def two_def one_def lit_def rng_def spaces1_def days_in_month_def strftime_def
  two_digits_def

lemma parse_None_eq:
  "parse_rating_item None item =
     Inr (result_with (num_text item) (fst (name_year item)) (name_eng item) (rating_gated item)
        (snd (name_year item)) (content_type item) (duration_text item) (date_text item))"
  by (simp add: parse_rating_item_eq reached_def)

lemma parse_script_only:
  "parse_rating_item None (item_of [script7])
     = Inr (result_with [] [] [] [] [] (u ''film'') [] [])"
  by (simp add: parse_None_eq field_ev item_ev soup_ev string_ev)

lemma parse_script_rate_now:
  "parse_rating_item None (item_of [script7, rate_now (u ''8'')])
     = Inr (result_with [] [] [] (u ''8'') [] (u ''film'') [] [])"
  by (simp add: parse_None_eq field_ev item_ev soup_ev string_ev)

lemma parse_all_signals:
  "parse_rating_item None (item_of [vote_widget [my_vote (u ''9'')], script7, rate_now (u ''8'')])
     = Inr (result_with [] [] [] (u ''9'') [] (u ''film'') [] [])"
  by (simp add: parse_None_eq field_ev item_ev soup_ev string_ev)

lemma parse_widget_script:
  "parse_rating_item None (item_of [vote_widget [], script7, rate_now (u ''8'')])
     = Inr (result_with [] [] [] (u ''7'') [] (u ''film'') [] [])"
  by (simp add: parse_None_eq field_ev item_ev soup_ev string_ev)

lemma parse_empty_item:
  "parse_rating_item None (item_of []) = Inr (result_with [] [] [] [] [] (u ''film'') [] [])"
  by (simp add: parse_None_eq field_ev item_ev soup_ev string_ev)

subsection \<open>The rating\<close>

text \<open>
  C4, as amended. For every record fragment the rating is found by three strategies in
  a fixed order: (1) the text of the first div inside the vote widget whose class string
  contains both markers, (2) the digits of the first script payload of the fragment that
  matches \<^verbatim>\<open>rating: '<digits>'\<close>, (3) the vote attribute of the first
  \<^verbatim>\<open>div.rateNow[vote]\<close>. Strategies (1) and (2) are tried only when the fragment
  has a vote widget, and (1) gives way when its text is empty. The first success wins;
  when all fail the rating is the empty string, and no error is raised.
\<close>

theorem rating_strategies_in_order:
  "\<exists>r. parse_rating_item None item = Inr r
       \<and> dget r ''rating'' = Inr (rating_gated item)
       \<and> (vote_attribute item = None
            \<and> (find_class (u ''div'') (u ''vote_widget'') item = None
                 \<or> script_rating item = None
                    \<and> (\<forall>w. find_class (u ''div'') (u ''vote_widget'') item = Some w
                           \<longrightarrow> or_empty (display_vote w) = []))
          \<longrightarrow> dget r ''rating'' = Inr [])"
  by (auto simp add: parse_None_eq dget_def rating_gated_def or_empty_def split: option.splits)

theorem rating_strategies_in_order_witness:
  "parse_rating_item None (item_of [vote_widget [my_vote (u ''9'')], script7, rate_now (u ''8'')])
     = Inr (result_with [] [] [] (u ''9'') [] (u ''film'') [] [])
   \<and> rating_gated (item_of [vote_widget [my_vote (u ''9'')], script7, rate_now (u ''8'')]) = u ''9''
   \<and> rating_gated (item_of [vote_widget [], script7, rate_now (u ''8'')]) = u ''7''
   \<and> rating_gated (item_of []) = []"
  using rating_strategies_in_order [of "item_of [vote_widget [my_vote (u ''9'')], script7, rate_now (u ''8'')]"]
    rating_strategies_in_order [of "item_of [vote_widget [], script7, rate_now (u ''8'')]"]
    rating_strategies_in_order [of "item_of []"]
  by (simp add: parse_all_signals parse_widget_script parse_empty_item dget_def)

text \<open>
  C4 as stated lets the script payload decide whenever the first strategy fails. A
  fragment without a vote widget whose script payload holds \<^verbatim>\<open>rating: '7'\<close> gets
  the empty rating.
\<close>

theorem rating_order_counterexample:
  "parse_rating_item None (item_of [script7])
     = Inr (result_with [] [] [] [] [] (u ''film'') [] [])
   \<and> rating_as_stated (item_of [script7]) = u ''7''
   \<and> dget (result_with [] [] [] [] [] (u ''film'') [] []) ''rating''
       \<noteq> Inr (rating_as_stated (item_of [script7]))"
proof -
  have "rating_as_stated (item_of [script7]) = u ''7''"
    by (simp add: rating_as_stated_def field_ev item_ev soup_ev string_ev)
  then show ?thesis
    by (simp add: parse_script_only dget_def u_def)
qed

text \<open>
  C9. A record fragment without a vote widget gets its rating from the vote attribute
  alone (the empty string when there is none): the script payload is not consulted,
  whatever it holds.
\<close>

theorem no_widget_no_script_strategy:
  assumes "find_class (u ''div'') (u ''vote_widget'') item = None"
  shows "\<exists>r. parse_rating_item None item = Inr r
           \<and> dget r ''rating'' = Inr (or_empty (vote_attribute item))"
  using assms by (simp add: parse_None_eq dget_def rating_gated_def)

theorem no_widget_no_script_strategy_witness:
  "find_class (u ''div'') (u ''vote_widget'') (item_of [script7, rate_now (u ''8'')]) = None
   \<and> script_rating (item_of [script7, rate_now (u ''8'')]) = Some (u ''7'')
   \<and> parse_rating_item None (item_of [script7, rate_now (u ''8'')])
       = Inr (result_with [] [] [] (u ''8'') [] (u ''film'') [] [])"
proof -
  have a: "find_class (u ''div'') (u ''vote_widget'') (item_of [script7, rate_now (u ''8'')]) = None"
    by (simp add: item_ev soup_ev string_ev)
  have b: "script_rating (item_of [script7, rate_now (u ''8'')]) = Some (u ''7'')"
    by (simp add: field_ev item_ev soup_ev string_ev)
  show ?thesis
    using no_widget_no_script_strategy [OF a] a b
    by (simp add: parse_script_rate_now)
qed

subsection \<open>The rating date\<close>

text \<open>
  C6, as amended. When the fragment has a date element, \<open>date_str\<close> is its text with
  the surrounding whitespace removed. If \<open>date_str\<close> parses against
  \<^verbatim>\<open>%d.%m.%Y, %H:%M\<close>, the field \<^verbatim>\<open>date_rated\<close> is the date printed as
  year-month-day; if not, the field is \<open>date_str\<close> itself. In both cases the record is
  returned and has the field.
\<close>

theorem date_rated_parsed_or_kept:
  assumes "find_class (u ''div'') (u ''date'') item = Some d"
  shows "\<exists>r. parse_rating_item None item = Inr r
           \<and> dget r ''date_rated'' =
               Inr (case strptime (strip (text_of (snd d))) of
                      Some date_obj \<Rightarrow> strftime date_obj
                    | None \<Rightarrow> strip (text_of (snd d)))"
  using assms by (simp add: parse_None_eq dget_def date_text_def)

theorem date_rated_parsed_or_kept_witness:
  "strptime (u ''15.03.2021, 14:30'') = Some (2021, 3, 15)
   \<and> (\<exists>r. parse_rating_item None (item_of [date_div (u '' 15.03.2021, 14:30 '')]) = Inr r
          \<and> dget r ''date_rated'' = Inr (u ''2021-03-15''))
   \<and> strptime (u ''yesterday'') = None
   \<and> (\<exists>r. parse_rating_item None (item_of [date_div (u ''yesterday'')]) = Inr r
          \<and> dget r ''date_rated'' = Inr (u ''yesterday''))"
proof -
  have a: "find_class (u ''div'') (u ''date'') (item_of [date_div s])
      = Some ([(u ''div'', Some [u ''item''])], date_div s)" for s
    by (simp add: item_ev soup_ev string_ev)
  have b: "strip (text_of (date_div (u '' 15.03.2021, 14:30 ''))) = u ''15.03.2021, 14:30''"
    "strip (text_of (date_div (u ''yesterday''))) = u ''yesterday''"
    by (simp_all add: item_ev string_ev)
  have c: "strptime (u ''15.03.2021, 14:30'') = Some (2021, 3, 15)"
    "strptime (u ''yesterday'') = None"
    by (simp_all add: strptime_ev string_ev)
  have d: "strftime (2021, 3, 15) = u ''2021-03-15''"
    by (simp add: strptime_ev u_def)
  show ?thesis
    using date_rated_parsed_or_kept [OF a, of "u '' 15.03.2021, 14:30 ''"]
      date_rated_parsed_or_kept [OF a, of "u ''yesterday''"]
    by (simp add: b c d)
qed

lemma find_date_div:
  "find_class (u ''div'') (u ''date'') (item_of [date_div s])
      = Some ([(u ''div'', Some [u ''item''])], date_div s)"
  by (simp add: item_ev soup_ev string_ev)

lemma parse_padded_date:
  "parse_rating_item None (item_of [date_div (u '' yesterday '')])
     = Inr (result_with [] [] [] [] [] (u ''film'') [] (u ''yesterday''))"
  by (simp add: parse_None_eq field_ev item_ev soup_ev string_ev strptime_ev)

text \<open>
  C6 as stated keeps the raw text of the date element unchanged when it does not parse.
  The text " yesterday ", with a space on either side, does not parse, and the field
  holds it without the two spaces.
\<close>

theorem padded_date_counterexample:
  "find_class (u ''div'') (u ''date'') (item_of [date_div (u '' yesterday '')])
     = Some ([(u ''div'', Some [u ''item''])], date_div (u '' yesterday ''))
   \<and> text_of (date_div (u '' yesterday '')) = u '' yesterday ''
   \<and> strptime (u '' yesterday '') = None
   \<and> parse_rating_item None (item_of [date_div (u '' yesterday '')])
       = Inr (result_with [] [] [] [] [] (u ''film'') [] (u ''yesterday''))
   \<and> dget (result_with [] [] [] [] [] (u ''film'') [] (u ''yesterday'')) ''date_rated''
       \<noteq> Inr (u '' yesterday '')"
proof -
  have "text_of (date_div (u '' yesterday '')) = u '' yesterday ''"
    by (simp add: date_div_def text_node_def)
  moreover have "strptime (u '' yesterday '') = None"
    by (simp add: strptime_ev string_ev)
  moreover have "dget (result_with [] [] [] [] [] (u ''film'') [] (u ''yesterday'')) ''date_rated''
       \<noteq> Inr (u '' yesterday '')"
    by (simp add: dget_def u_def)
  ultimately show ?thesis
    using find_date_div parse_padded_date by simp
qed

subsection \<open>No exception leaves parse_rating_item\<close>

lemma run_body_result:
  "parse_rating_item fault item = Inr r \<Longrightarrow> fst (run_body (sections item) fault new_result) = r"
  by (auto simp add: parse_rating_item_def split: prod.splits option.splits sum.splits)

lemma section_keys_cases:
  assumes "j < 7" and "key \<in> set (section_keys j)"
  shows "j = 0 \<and> key = ''num'' \<or> j = 1 \<and> (key = ''nameRus'' \<or> key = ''year'')
       \<or> j = 2 \<and> key = ''nameEng'' \<or> j = 3 \<and> key = ''rating''
       \<or> j = 4 \<and> key = ''duration'' \<or> j = 5 \<and> key = ''type''
       \<or> j = 6 \<and> key = ''date_rated''"
proof -
  from assms(1) consider "j = 0" | "j = 1" | "j = 2" | "j = 3" | "j = 4" | "j = 5" | "j = 6"
    by linarith
  then show ?thesis
    using assms(2) by cases (simp_all add: section_keys_def)
qed

lemma parse_fault_example:
  "parse_rating_item (Some 3)
     (item_of [name_link (u ''Foo (1999)''), vote_widget [my_vote (u ''9'')], date_div (u ''x'')])
   = Inr (result_with [] (u ''Foo'') [] [] (u ''1999'') [] [] [])"
  by (simp add: parse_rating_item_eq reached_def field_ev item_ev soup_ev string_ev
      rx_year_tail_def)

text \<open>
  C8. For every record fragment and wherever an unexpected exception interrupts the
  extraction, \<open>parse_rating_item\<close> returns a record and raises nothing. The record is
  \<^verbatim>\<open>result\<close> as the interrupted body left it: the fields of the sections completed
  before the exception hold what they hold in an undisturbed run, the fields of the
  section that raised and of the later ones hold the initial empty string.
\<close>

theorem parse_rating_item_never_raises:
  "\<exists>r r0. parse_rating_item fault item = Inr r
         \<and> r = fst (run_body (sections item) fault new_result)
         \<and> parse_rating_item None item = Inr r0
         \<and> (\<forall>k j key. fault = Some k \<and> j < 7 \<and> key \<in> set (section_keys j) \<longrightarrow>
               dget r key = (if j < k then dget r0 key else Inr []))"
proof -
  obtain r where r: "parse_rating_item fault item = Inr r"
    by (simp add: parse_rating_item_eq)
  obtain r0 where r0: "parse_rating_item None item = Inr r0"
    by (simp add: parse_rating_item_eq)
  have "dget r key = (if j < k then dget r0 key else Inr [])"
    if "fault = Some k" "j < 7" "key \<in> set (section_keys j)" for k j key
    using section_keys_cases [OF that(2,3)] r r0 that(1)
    by (auto simp add: parse_rating_item_eq reached_def dget_def)
  with r r0 run_body_result [OF r] show ?thesis
    by blast
qed

theorem parse_rating_item_never_raises_witness:
  "parse_rating_item (Some 3)
     (item_of [name_link (u ''Foo (1999)''), vote_widget [my_vote (u ''9'')], date_div (u ''x'')])
   = Inr (result_with [] (u ''Foo'') [] [] (u ''1999'') [] [] [])
   \<and> fst (run_body
       (sections (item_of [name_link (u ''Foo (1999)''), vote_widget [my_vote (u ''9'')], date_div (u ''x'')]))
       (Some 3) new_result)
     = result_with [] (u ''Foo'') [] [] (u ''1999'') [] [] []"
  using parse_rating_item_never_raises [of "Some 3"
      "item_of [name_link (u ''Foo (1999)''), vote_widget [my_vote (u ''9'')], date_div (u ''x'')]"]
  by (auto simp add: parse_fault_example)

subsection \<open>The fields of the record\<close>

lemma reached_empty: "reached fault j [] = []"
  by (simp add: reached_def split: option.splits)

lemma select_type_div_empty: "select_type_div (item_of []) = None"
  by (simp add: item_ev)

text \<open>
  C10, as amended. For every record fragment, also when the extraction is interrupted,
  the record returned by \<open>parse_rating_item\<close> has exactly the eight keys num,
  nameRus, nameEng, rating, year, type, duration, date_rated, in this order, each bound
  to a string. A field whose source element is absent from the fragment, or whose section
  was not reached, holds the empty string; the exception is type, which holds "film"
  when its section ran and found no type attribute.
\<close>

theorem parse_rating_item_eight_fields:
  "\<exists>r. parse_rating_item fault item = Inr r
       \<and> map fst r = fieldnames
       \<and> (find_class (u ''div'') (u ''num'') item = None \<longrightarrow> dget r ''num'' = Inr [])
       \<and> (select_name_link item = None \<longrightarrow>
            dget r ''nameRus'' = Inr [] \<and> dget r ''year'' = Inr [])
       \<and> (find_class (u ''div'') (u ''nameEng'') item = None \<longrightarrow> dget r ''nameEng'' = Inr [])
       \<and> (find_class (u ''div'') (u ''vote_widget'') item = None \<and> select_rate_now item = None
            \<longrightarrow> dget r ''rating'' = Inr [])
       \<and> (find_class (u ''div'') (u ''rating'') item = None \<longrightarrow> dget r ''duration'' = Inr [])
       \<and> (find_class (u ''div'') (u ''date'') item = None \<longrightarrow> dget r ''date_rated'' = Inr [])
       \<and> (select_type_div item = None \<longrightarrow>
            dget r ''type'' =
              Inr (case fault of None \<Rightarrow> u ''film'' | Some k \<Rightarrow> if 5 < k then u ''film'' else []))
       \<and> (\<forall>k j key. fault = Some k \<and> k \<le> j \<and> j < 7 \<and> key \<in> set (section_keys j) \<longrightarrow>
             dget r key = Inr [])"
proof -
  define r where "r = result_with (reached fault 0 (num_text item))
        (reached fault 1 (fst (name_year item)))
        (reached fault 2 (name_eng item)) (reached fault 3 (rating_gated item))
        (reached fault 1 (snd (name_year item))) (reached fault 5 (content_type item))
        (reached fault 4 (duration_text item)) (reached fault 6 (date_text item))"
  have p: "parse_rating_item fault item = Inr r"
    unfolding r_def by (rule parse_rating_item_eq)
  have keys: "map fst r = fieldnames"
    by (simp add: r_def fieldnames_def)
  have num: "dget r ''num'' = Inr []" if "find_class (u ''div'') (u ''num'') item = None"
    using that by (simp add: r_def dget_def num_text_def reached_empty)
  have name: "dget r ''nameRus'' = Inr [] \<and> dget r ''year'' = Inr []"
    if "select_name_link item = None"
    using that by (simp add: r_def dget_def name_year_def reached_empty)
  have eng: "dget r ''nameEng'' = Inr []"
    if "find_class (u ''div'') (u ''nameEng'') item = None"
    using that by (simp add: r_def dget_def name_eng_def reached_empty)
  have rating: "dget r ''rating'' = Inr []"
    if "find_class (u ''div'') (u ''vote_widget'') item = None \<and> select_rate_now item = None"
    using that
    by (simp add: r_def dget_def rating_gated_def vote_attribute_def or_empty_def reached_empty)
  have duration: "dget r ''duration'' = Inr []"
    if "find_class (u ''div'') (u ''rating'') item = None"
    using that by (simp add: r_def dget_def duration_text_def reached_empty)
  have date: "dget r ''date_rated'' = Inr []"
    if "find_class (u ''div'') (u ''date'') item = None"
    using that by (simp add: r_def dget_def date_text_def reached_empty)
  have type: "dget r ''type'' =
      Inr (case fault of None \<Rightarrow> u ''film'' | Some k \<Rightarrow> if 5 < k then u ''film'' else [])"
    if "select_type_div item = None"
    using that by (simp add: r_def dget_def content_type_def reached_def split: option.splits)
  have late: "dget r key = Inr []"
    if "fault = Some k \<and> k \<le> j \<and> j < 7 \<and> key \<in> set (section_keys j)" for k j key
  proof -
    from that have f: "fault = Some k" and kj: "k \<le> j" by simp_all
    from that have "j < 7" and "key \<in> set (section_keys j)" by simp_all
    from section_keys_cases [OF this] f kj show ?thesis
      by (elim disjE conjE; simp add: r_def reached_def dget_def)
  qed
  show ?thesis
  proof (intro exI [of _ r] conjI impI allI)
    show "dget r key = Inr []"
      if "fault = Some k \<and> k \<le> j \<and> j < 7 \<and> key \<in> set (section_keys j)" for k j key
      using that by (rule late)
  qed (use p keys num name eng rating duration date type in simp_all)
qed

lemma parse_empty_item_cut:
  "parse_rating_item (Some 5) (item_of []) = Inr (result_with [] [] [] [] [] [] [] [])"
  by (simp add: parse_rating_item_eq reached_def field_ev item_ev soup_ev string_ev)

theorem parse_rating_item_eight_fields_witness:
  "parse_rating_item None (item_of []) = Inr (result_with [] [] [] [] [] (u ''film'') [] [])
   \<and> map fst (result_with [] [] [] [] [] (u ''film'') [] []) = fieldnames
   \<and> parse_rating_item (Some 5) (item_of []) = Inr (result_with [] [] [] [] [] [] [] [])
   \<and> map fst (result_with [] [] [] [] [] [] [] []) = fieldnames"
  using parse_rating_item_eight_fields [of None "item_of []"]
    parse_rating_item_eight_fields [of "Some 5" "item_of []"]
  by (auto simp add: parse_empty_item parse_empty_item_cut)

text \<open>
  C10 as stated gives the empty string to every field that was not extracted. A fragment
  without a type attribute gets the type "film".
\<close>

theorem type_default_counterexample:
  "select_type_div (item_of []) = None
   \<and> parse_rating_item None (item_of []) = Inr (result_with [] [] [] [] [] (u ''film'') [] [])
   \<and> dget (result_with [] [] [] [] [] (u ''film'') [] []) ''type'' \<noteq> Inr []"
  by (simp add: select_type_div_empty parse_empty_item dget_def u_def)

subsection \<open>The filter on the names\<close>

lemma has_name_eq: "has_name (result_with n r e g y t du da) = Inr (r \<noteq> [] \<or> e \<noteq> [])"
  by (simp add: has_name_def dget_def)

lemma name_nonempty_eq: "name_nonempty (result_with n r e g y t du da) = (r \<noteq> [] \<or> e \<noteq> [])"
  by (simp add: name_nonempty_def)

lemma debug_line_eq: "debug_line (result_with n r e g y t du da) = Inr ()"
  by (simp add: debug_line_def dget_def)

lemma parse_rating_item_projr:
  "parse_rating_item fault item = Inr (projr (parse_rating_item fault item))"
  by (simp add: parse_rating_item_eq)

lemma map_parse_rating_item:
  "map (\<lambda>item. parse_rating_item (faults item) item) items
     = map Inr (map (\<lambda>item. projr (parse_rating_item (faults item) item)) items)"
  using parse_rating_item_projr by simp

lemma extract_loop_eq:
  "extract_loop faults items results =
     Inr (results @ filter name_nonempty
            (map (\<lambda>item. projr (parse_rating_item (faults item) item)) items))"
  by (induction items arbitrary: results)
    (simp_all add: parse_rating_item_eq has_name_eq name_nonempty_eq)

lemma items_loop_eq:
  "items_loop faults items all_ratings =
     Inr (all_ratings @ filter name_nonempty
            (map (\<lambda>item. projr (parse_rating_item (faults item) item)) items))"
  by (induction items arbitrary: all_ratings)
    (simp_all add: parse_rating_item_eq has_name_eq name_nonempty_eq debug_line_eq)

lemma items_three:
  "find_all_class (u ''div'') (u ''item'') ([], three_items) =
     [([(u ''[document]'', None)], Tag (u ''div'') (Some [u ''item'']) [] [name_link (u ''Foo (1999)'')]),
      ([(u ''[document]'', None)], Tag (u ''div'') (Some [u ''item'']) [] [rate_now (u ''8'')]),
      ([(u ''[document]'', None)], Tag (u ''div'') (Some [u ''item'']) [] [name_eng_div (u ''Bar'')])]"
  by (simp add: three_items_def name_eng_div_def item_ev soup_ev string_ev)

lemma parse_three:
  "parse_rating_item None
     ([(u ''[document]'', None)], Tag (u ''div'') (Some [u ''item'']) [] [name_link (u ''Foo (1999)'')])
     = Inr (result_with [] (u ''Foo'') [] [] (u ''1999'') (u ''film'') [] [])"
  "parse_rating_item None
     ([(u ''[document]'', None)], Tag (u ''div'') (Some [u ''item'']) [] [rate_now (u ''8'')])
     = Inr (result_with [] [] [] (u ''8'') [] (u ''film'') [] [])"
  "parse_rating_item None
     ([(u ''[document]'', None)], Tag (u ''div'') (Some [u ''item'']) [] [name_eng_div (u ''Bar'')])
     = Inr (result_with [] [] (u ''Bar'') [] [] (u ''film'') [] [])"
  by (simp_all add: parse_None_eq field_ev name_eng_div_def item_ev soup_ev string_ev
      rx_year_tail_def)

text \<open>
  C2. All the fragments of a page are parsed into records \<open>rs\<close>, and the output keeps
  exactly the records that have a non-empty \<^verbatim>\<open>nameRus\<close> or a non-empty
  \<^verbatim>\<open>nameEng\<close>, in their order, whatever their other fields hold: so for the result
  of \<open>extract_from_html\<close>, and so for what the inner loop of \<open>export_to_csv\<close> appends
  to its accumulator.
\<close>

theorem records_kept_iff_named:
  "(\<exists>rs. map (\<lambda>item. parse_rating_item (faults item) item)
            (find_all_class (u ''div'') (u ''item'') ([], soup)) = map Inr rs
        \<and> extract_from_html faults soup = Inr (filter name_nonempty rs))
   \<and> (\<exists>rs. map (\<lambda>item. parse_rating_item (faults item) item) items = map Inr rs
        \<and> items_loop faults items all_ratings = Inr (all_ratings @ filter name_nonempty rs))"
proof (intro conjI)
  show "\<exists>rs. map (\<lambda>item. parse_rating_item (faults item) item)
            (find_all_class (u ''div'') (u ''item'') ([], soup)) = map Inr rs
        \<and> extract_from_html faults soup = Inr (filter name_nonempty rs)"
  proof (intro exI conjI)
    show "map (\<lambda>item. parse_rating_item (faults item) item)
            (find_all_class (u ''div'') (u ''item'') ([], soup))
        = map Inr (map (\<lambda>item. projr (parse_rating_item (faults item) item))
            (find_all_class (u ''div'') (u ''item'') ([], soup)))"
      by (rule map_parse_rating_item)
    show "extract_from_html faults soup
        = Inr (filter name_nonempty (map (\<lambda>item. projr (parse_rating_item (faults item) item))
            (find_all_class (u ''div'') (u ''item'') ([], soup))))"
      by (simp add: extract_from_html_def extract_loop_eq)
  qed
  show "\<exists>rs. map (\<lambda>item. parse_rating_item (faults item) item) items = map Inr rs
        \<and> items_loop faults items all_ratings = Inr (all_ratings @ filter name_nonempty rs)"
  proof (intro exI conjI)
    show "map (\<lambda>item. parse_rating_item (faults item) item) items
        = map Inr (map (\<lambda>item. projr (parse_rating_item (faults item) item)) items)"
      by (rule map_parse_rating_item)
    show "items_loop faults items all_ratings
        = Inr (all_ratings @ filter name_nonempty
            (map (\<lambda>item. projr (parse_rating_item (faults item) item)) items))"
      by (rule items_loop_eq)
  qed
qed

lemma extract_three:
  "extract_from_html (\<lambda>item. None) three_items
     = Inr [result_with [] (u ''Foo'') [] [] (u ''1999'') (u ''film'') [] [],
            result_with [] [] (u ''Bar'') [] [] (u ''film'') [] []]"
  by (simp add: extract_from_html_def items_three parse_three has_name_eq) (simp add: u_def)

lemma items_loop_three:
  "items_loop (\<lambda>item. None) (find_all_class (u ''div'') (u ''item'') ([], three_items)) []
     = Inr [result_with [] (u ''Foo'') [] [] (u ''1999'') (u ''film'') [] [],
            result_with [] [] (u ''Bar'') [] [] (u ''film'') [] []]"
  by (simp add: items_three parse_three has_name_eq debug_line_eq) (simp add: u_def)

theorem records_kept_iff_named_witness:
  "extract_from_html (\<lambda>item. None) three_items
     = Inr [result_with [] (u ''Foo'') [] [] (u ''1999'') (u ''film'') [] [],
            result_with [] [] (u ''Bar'') [] [] (u ''film'') [] []]
   \<and> items_loop (\<lambda>item. None) (find_all_class (u ''div'') (u ''item'') ([], three_items)) []
     = Inr [result_with [] (u ''Foo'') [] [] (u ''1999'') (u ''film'') [] [],
            result_with [] [] (u ''Bar'') [] [] (u ''film'') [] []]"
  using records_kept_iff_named [of "\<lambda>item. None" three_items
      "find_all_class (u ''div'') (u ''item'') ([], three_items)" "[]"]
  by (simp add: extract_three items_loop_three)

subsection \<open>The pipeline\<close>

lemma get_total_pages_failed:
  "net w (length (sent w)) 1 = None \<Longrightarrow> fst (get_total_pages w) = 0"
  by (simp add: get_total_pages_def http_get_def)

lemma fetch_ratings_page_world:
  "snd (fetch_ratings_page page w) = w\<lparr>sent := sent w @ [page]\<rparr>"
  by (simp add: fetch_ratings_page_def http_get_def split: option.splits)

lemma fetch_ratings_page_failed:
  "net w (length (sent w)) page = None
     \<Longrightarrow> fetch_ratings_page page w = ([], w\<lparr>sent := sent w @ [page]\<rparr>)"
  by (simp add: fetch_ratings_page_def http_get_def)

lemma pages_loop_sent:
  "\<exists>all' w'. pages_loop faults total_pages pages all_ratings w = Inr (all', w')
      \<and> sent w' = sent w @ pages"
proof (induction pages arbitrary: all_ratings w)
  case Nil
  then show ?case by simp
next
  case (Cons page pages)
  obtain items w1 where f: "fetch_ratings_page page w = (items, w1)"
    by (cases "fetch_ratings_page page w")
  with fetch_ratings_page_world [of page w] have w1: "sent w1 = sent w @ [page]"
    by simp
  show ?case
  proof (cases "items = []")
    case True
    with Cons.IH [of all_ratings w1] f w1 show ?thesis
      by simp
  next
    case False
    obtain all1 where a: "items_loop faults items all_ratings = Inr all1"
      by (simp add: items_loop_eq)
    define w2 where "w2 = (if page < total_pages then w1\<lparr>slept := slept w1 + 1\<rparr> else w1)"
    then have "sent w2 = sent w @ [page]"
      using w1 by simp
    with Cons.IH [of all1 w2] f a False show ?thesis
      by (simp add: w2_def)
  qed
qed

lemma write_csv_sent: "sent (snd (write_csv all_ratings w)) = sent w"
  by (simp add: write_csv_def split: option.splits)

lemma upto_one: "[1 .. 1::int] = [1]"
  by (simp add: upto.simps)

text \<open>
  C3. If the request for the first listing page raises, \<open>get_total_pages\<close> returns 0.
  When the page count is 0, \<open>export_to_csv\<close> returns \<^verbatim>\<open>False\<close> and leaves the world
  as the count request left it: no page is fetched, no pause is made and no file is
  written. The fallback 1 is another outcome: with the page count 1 the pipeline goes
  on and requests page 1.
\<close>

theorem count_failure_aborts:
  "(net w (length (sent w)) 1 = None \<longrightarrow> fst (get_total_pages w) = 0)
   \<and> (fst (get_total_pages w) = 0 \<longrightarrow>
        export_to_csv faults w = Inr (False, w\<lparr>sent := sent w @ [1]\<rparr>))
   \<and> (fst (get_total_pages w) = 1 \<longrightarrow>
        (\<exists>ok w'. export_to_csv faults w = Inr (ok, w') \<and> sent w' = sent w @ [1, 1]))"
proof (intro conjI impI)
  assume "net w (length (sent w)) 1 = None"
  then show "fst (get_total_pages w) = 0"
    by (rule get_total_pages_failed)
next
  assume "fst (get_total_pages w) = 0"
  with get_total_pages_world [of w]
  have "get_total_pages w = (0, w\<lparr>sent := sent w @ [1]\<rparr>)"
    by (simp add: prod_eq_iff)
  then show "export_to_csv faults w = Inr (False, w\<lparr>sent := sent w @ [1]\<rparr>)"
    by (simp add: export_to_csv_def)
next
  assume one: "fst (get_total_pages w) = 1"
  define w0 where "w0 = w\<lparr>sent := sent w @ [1]\<rparr>"
  from one get_total_pages_world [of w] have g: "get_total_pages w = (1, w0)"
    by (simp add: w0_def prod_eq_iff)
  obtain all1 w1 where l: "pages_loop faults 1 [1] [] w0 = Inr (all1, w1)"
    and s: "sent w1 = sent w0 @ [1]"
    using pages_loop_sent [of faults 1 "[1]" "[]" w0] by blast
  have "export_to_csv faults w = Inr (write_csv all1 w1)"
    by (simp add: export_to_csv_def g upto_one l del: pages_loop.simps)
  moreover have "sent (snd (write_csv all1 w1)) = sent w @ [1, 1]"
    by (simp add: write_csv_sent s w0_def)
  ultimately show "\<exists>ok w'. export_to_csv faults w = Inr (ok, w') \<and> sent w' = sent w @ [1, 1]"
    by (metis prod.collapse)
qed

theorem count_failure_aborts_witness:
  "fst (get_total_pages offline) = 0
   \<and> export_to_csv (\<lambda>item. None) offline = Inr (False, offline\<lparr>sent := [1]\<rparr>)
   \<and> fst (get_total_pages (world_of (document []))) = 1
   \<and> (\<exists>ok w'. export_to_csv (\<lambda>item. None) (world_of (document [])) = Inr (ok, w')
         \<and> sent w' = [1, 1])"
proof -
  have a: "net offline 0 1 = None"
    by (simp add: offline_def)
  have b: "sent offline = []" "sent (world_of (document [])) = []"
    by (simp_all add: offline_def world_of_def)
  have c: "fst (get_total_pages (world_of (document []))) = 1"
    by (rule get_total_pages_examples)
  show ?thesis
    using count_failure_aborts [of offline "\<lambda>item. None"]
      count_failure_aborts [of "world_of (document [])" "\<lambda>item. None"]
    by (simp add: a b c)
qed

lemma page_records_net: "net w' = net w \<Longrightarrow> page_records faults w' = page_records faults w"
  by (simp add: page_records_def fun_eq_iff)

lemma page_records_failed: "net w k page = None \<Longrightarrow> page_records faults w k page = []"
  by (simp add: page_records_def)

lemma pages_loop_records:
  "\<exists>w'. pages_loop faults total_pages pages all_ratings w
        = Inr (all_ratings @ concat (map (\<lambda>(k, p). page_records faults w k p)
                 (List.enumerate (length (sent w)) pages)), w')
      \<and> sent w' = sent w @ pages \<and> net w' = net w \<and> csv w' = csv w \<and> csv_ok w' = csv_ok w"
proof (induction pages arbitrary: all_ratings w)
  case Nil
  then show ?case by simp
next
  case (Cons page pages)
  define w1 where "w1 = w\<lparr>sent := sent w @ [page]\<rparr>"
  define w2 where "w2 = (if page < total_pages then w1\<lparr>slept := slept w1 + 1\<rparr> else w1)"
  have n1: "net w1 = net w" "length (sent w1) = Suc (length (sent w))"
    "sent w1 = sent w @ [page]" "csv w1 = csv w" "csv_ok w1 = csv_ok w"
    by (simp_all add: w1_def)
  then have n2: "net w2 = net w" "length (sent w2) = Suc (length (sent w))"
    "sent w2 = sent w @ [page]" "csv w2 = csv w" "csv_ok w2 = csv_ok w"
    by (simp_all add: w2_def)
  show ?case
  proof (cases "net w (length (sent w)) page")
    case None
    then have f: "fetch_ratings_page page w = ([], w1)"
      by (simp add: fetch_ratings_page_failed w1_def)
    from Cons.IH [of all_ratings w1] None f n1 show ?thesis
      by (auto simp add: page_records_net [OF n1(1)] page_records_failed)
  next
    case (Some soup)
    define items where "items = find_all_class (u ''div'') (u ''item'') ([], soup)"
    from Some have f: "fetch_ratings_page page w = (items, w1)"
      by (simp add: fetch_ratings_page_def http_get_def w1_def items_def)
    from Some have r: "page_records faults w (length (sent w)) page
        = filter name_nonempty (map (\<lambda>item. projr (parse_rating_item (faults item) item)) items)"
      by (simp add: page_records_def items_def)
    show ?thesis
    proof (cases "items = []")
      case True
      with r have "page_records faults w (length (sent w)) page = []"
        by simp
      with Cons.IH [of all_ratings w1] f True n1 show ?thesis
        by (auto simp add: page_records_net [OF n1(1)])
    next
      case False
      from Cons.IH [of "all_ratings @ page_records faults w (length (sent w)) page" w2]
        f False r n2 show ?thesis
        by (auto simp add: page_records_net [OF n2(1)] items_loop_eq w2_def [symmetric])
    qed
  qed
qed

lemma export_to_csv_records:
  assumes "fst (get_total_pages w) \<noteq> 0"
  shows "\<exists>w1. export_to_csv faults w
        = Inr (write_csv (concat (map (\<lambda>(k, p). page_records faults w k p)
                 (List.enumerate (Suc (length (sent w))) [1 .. fst (get_total_pages w)]))) w1)
      \<and> sent w1 = sent w @ 1 # [1 .. fst (get_total_pages w)]
      \<and> csv w1 = csv w \<and> csv_ok w1 = csv_ok w"
proof -
  define n where "n = fst (get_total_pages w)"
  define w0 where "w0 = w\<lparr>sent := sent w @ [1]\<rparr>"
  have g: "get_total_pages w = (n, w0)"
    using get_total_pages_world [of w] by (simp add: n_def w0_def prod_eq_iff)
  have w0: "net w0 = net w" "length (sent w0) = Suc (length (sent w))"
    "sent w0 = sent w @ [1]" "csv w0 = csv w" "csv_ok w0 = csv_ok w"
    by (simp_all add: w0_def)
  obtain w1 where l: "pages_loop faults n [1 .. n] [] w0
        = Inr ([] @ concat (map (\<lambda>(k, p). page_records faults w0 k p)
                 (List.enumerate (length (sent w0)) [1 .. n])), w1)"
    and s: "sent w1 = sent w0 @ [1 .. n]" "csv w1 = csv w0" "csv_ok w1 = csv_ok w0"
    using pages_loop_records [of faults n "[1 .. n]" "[]" w0] by blast
  from assms have "n \<noteq> 0"
    by (simp add: n_def)
  then have "export_to_csv faults w
      = Inr (write_csv (concat (map (\<lambda>(k, p). page_records faults w k p)
                 (List.enumerate (Suc (length (sent w))) [1 .. n]))) w1)"
    using l by (simp add: export_to_csv_def g w0 page_records_net [OF w0(1)])
  with s w0 show ?thesis
    unfolding n_def by auto
qed

text \<open>
  C7. When the request for a listing page raises, \<open>fetch_ratings_page\<close> returns the
  empty list, the page adds no record, and the page loop goes on with the next page with
  the accumulator as it was; the loop never aborts and requests every page of its range.
  So does the pipeline: whenever the page count is not 0, \<open>export_to_csv\<close> requests
  every page from 1 to the count, whichever of them fail, and hands to the writer of the
  file the records of the pages in their order, a failed page standing for no record.
\<close>

theorem failed_page_is_skipped:
  assumes "net w (length (sent w)) page = None"
  shows "fetch_ratings_page page w = ([], w\<lparr>sent := sent w @ [page]\<rparr>)
     \<and> pages_loop faults total_pages (page # pages) all_ratings w
         = pages_loop faults total_pages pages all_ratings (w\<lparr>sent := sent w @ [page]\<rparr>)
     \<and> (\<exists>all' w'. pages_loop faults total_pages (page # pages) all_ratings w = Inr (all', w')
           \<and> sent w' = sent w @ page # pages)
     \<and> page_records faults w (length (sent w)) page = []
     \<and> (fst (get_total_pages v) \<noteq> 0 \<longrightarrow>
          (\<exists>v1. export_to_csv faults v
              = Inr (write_csv (concat (map (\<lambda>(k, p). page_records faults v k p)
                       (List.enumerate (Suc (length (sent v))) [1 .. fst (get_total_pages v)]))) v1)
            \<and> sent v1 = sent v @ 1 # [1 .. fst (get_total_pages v)]
            \<and> csv v1 = csv v \<and> csv_ok v1 = csv_ok v))"
proof (intro conjI impI)
  show "fetch_ratings_page page w = ([], w\<lparr>sent := sent w @ [page]\<rparr>)"
    using assms by (rule fetch_ratings_page_failed)
  then show "pages_loop faults total_pages (page # pages) all_ratings w
         = pages_loop faults total_pages pages all_ratings (w\<lparr>sent := sent w @ [page]\<rparr>)"
    by simp
  show "\<exists>all' w'. pages_loop faults total_pages (page # pages) all_ratings w = Inr (all', w')
           \<and> sent w' = sent w @ page # pages"
    by (rule pages_loop_sent)
  show "page_records faults w (length (sent w)) page = []"
    using assms by (rule page_records_failed)
  show "\<exists>v1. export_to_csv faults v
              = Inr (write_csv (concat (map (\<lambda>(k, p). page_records faults v k p)
                       (List.enumerate (Suc (length (sent v))) [1 .. fst (get_total_pages v)]))) v1)
            \<and> sent v1 = sent v @ 1 # [1 .. fst (get_total_pages v)]
            \<and> csv v1 = csv v \<and> csv_ok v1 = csv_ok v"
    if "fst (get_total_pages v) \<noteq> 0"
    using that by (rule export_to_csv_records)
qed

lemma upto_two: "[1 .. 2::int] = [1, 2]"
  by (simp add: upto.simps)

lemma count_page_one_lost: "get_total_pages page_one_lost = (2, page_one_lost\<lparr>sent := [1]\<rparr>)"
proof -
  have "net page_one_lost (length (sent page_one_lost)) 1 = Some (page_with_total (u ''51''))"
    by (simp add: page_one_lost_def)
  from get_total_pages_ceiling [OF this] have "fst (get_total_pages page_one_lost) = 2"
    by (simp add: digits_examples ceil50) (simp add: string_ev)
  moreover have "snd (get_total_pages page_one_lost) = page_one_lost\<lparr>sent := [1]\<rparr>"
    by (simp add: get_total_pages_world) (simp add: page_one_lost_def)
  ultimately show ?thesis
    by (simp add: prod_eq_iff)
qed

lemma export_page_one_lost:
  "export_to_csv (\<lambda>item. None) page_one_lost
     = Inr (True, page_one_lost\<lparr>sent := [1, 1, 2],
         csv := Some [map u fieldnames,
           [ [], u ''Foo'', [], [], u ''1999'', u ''film'', [], []],
           [ [], [], u ''Bar'', [], [], u ''film'', [], []]]\<rparr>)"
proof -
  have a: "fetch_ratings_page 1 (page_one_lost\<lparr>sent := [1]\<rparr>)
      = ([], page_one_lost\<lparr>sent := [1, 1]\<rparr>)"
    by (simp add: fetch_ratings_page_def http_get_def page_one_lost_def)
  have b: "fetch_ratings_page 2 (page_one_lost\<lparr>sent := [1, 1]\<rparr>)
      = (find_all_class (u ''div'') (u ''item'') ([], three_items),
         page_one_lost\<lparr>sent := [1, 1, 2]\<rparr>)"
    by (simp add: fetch_ratings_page_def http_get_def page_one_lost_def)
  have c: "find_all_class (u ''div'') (u ''item'') ([], three_items) \<noteq> []"
    by (simp add: items_three)
  have d: "csv_ok (page_one_lost\<lparr>sent := [1, 1, 2]\<rparr>)"
    by (simp add: page_one_lost_def)
  show ?thesis
    by (simp add: export_to_csv_def count_page_one_lost upto_two a b c items_loop_three
        write_csv_def d dict_to_list_def fieldnames_def)
qed

theorem failed_page_is_skipped_witness:
  "net (page_one_lost\<lparr>sent := [1]\<rparr>) 1 1 = None
   \<and> fetch_ratings_page 1 (page_one_lost\<lparr>sent := [1]\<rparr>) = ([], page_one_lost\<lparr>sent := [1, 1]\<rparr>)
   \<and> fst (get_total_pages page_one_lost) = 2
   \<and> export_to_csv (\<lambda>item. None) page_one_lost
     = Inr (True, page_one_lost\<lparr>sent := [1, 1, 2],
         csv := Some [map u fieldnames,
           [ [], u ''Foo'', [], [], u ''1999'', u ''film'', [], []],
           [ [], [], u ''Bar'', [], [], u ''film'', [], []]]\<rparr>)"
proof -
  have a: "net (page_one_lost\<lparr>sent := [1]\<rparr>) (length (sent (page_one_lost\<lparr>sent := [1]\<rparr>))) 1 = None"
    by (simp add: page_one_lost_def)
  have b: "net page_one_lost (Suc 0) 1 = None" "net page_one_lost 1 1 = None"
    by (simp_all add: page_one_lost_def)
  show ?thesis
    using failed_page_is_skipped [OF a, of "\<lambda>item. None" 2 "[2]" "[]" page_one_lost]
    by (simp add: b count_page_one_lost export_page_one_lost)
qed

text \<open>
  C1. The claim gives the fallback 1 to a page whose indicator shows the total 0, so
  that 0 stays the sign of a failed request. On a first listing page whose summary
  reads "1-50 of 0" the source returns 0, and \<open>export_to_csv\<close> then stops as it does
  after a failed request: it returns \<^verbatim>\<open>False\<close> and requests no page.
\<close>

theorem zero_total_aborts:
  "indicated_total (page_with_total (u ''0'')) = Some 0
   \<and> fst (get_total_pages (world_of (page_with_total (u ''0'')))) = 0
   \<and> export_to_csv (\<lambda>item. None) (world_of (page_with_total (u ''0'')))
       = Inr (False, world_of (page_with_total (u ''0''))\<lparr>sent := [1]\<rparr>)"
proof -
  have "indicated_total (page_with_total (u ''0'')) = Some 0"
    by (simp add: indicated_total_def digits_examples) (simp add: string_ev)
  moreover have z: "fst (get_total_pages (world_of (page_with_total (u ''0'')))) = 0"
    by (rule get_total_pages_examples)
  moreover have "snd (get_total_pages (world_of (page_with_total (u ''0''))))
      = world_of (page_with_total (u ''0''))\<lparr>sent := [1]\<rparr>"
    by (simp add: get_total_pages_world) (simp add: world_of_def)
  with z have "get_total_pages (world_of (page_with_total (u ''0'')))
      = (0, world_of (page_with_total (u ''0''))\<lparr>sent := [1]\<rparr>)"
    by (simp add: prod_eq_iff)
  then have "export_to_csv (\<lambda>item. None) (world_of (page_with_total (u ''0'')))
       = Inr (False, world_of (page_with_total (u ''0''))\<lparr>sent := [1]\<rparr>)"
    by (simp add: export_to_csv_def)
  ultimately show ?thesis
    by simp
qed

subsection \<open>The local title and the year\<close>

lemma space_facts: "is_space 10" "\<not> is_space 40"
  by (simp_all add: is_space_def)

lemma rstrip_Cons:
  "rstrip (c # xs) = (if list_all is_space (c # xs) then [] else c # rstrip xs)"
  by (auto simp add: rstrip_def list_all_iff dropWhile_append)

lemma rstrip_spaces: "list_all is_space xs \<Longrightarrow> rstrip xs = []"
  by (simp add: rstrip_def list_all_iff)

lemma year_suffix_iff:
  "year_suffix s = Some (pre, y)
     \<longleftrightarrow> s = pre @ 40 # y @ [41] \<and> length y = 4 \<and> list_all is_digit y"
proof
  assume a: "year_suffix s = Some (pre, y)"
  define t where "t = drop (length s - 6) s"
  from a have l: "length t = 6" and h: "take 1 t = [40]" and e: "drop 5 t = [41]"
    and y: "y = take 4 (drop 1 t)" and d: "list_all is_digit y"
    and p: "pre = take (length s - 6) s"
    by (auto simp add: year_suffix_def Let_def t_def starts_with_def split: if_splits)
  have "take 4 (drop 1 t) @ drop 5 t = drop 1 t"
    using append_take_drop_id [of 4 "drop 1 t"] by simp
  then have "t = take 1 t @ take 4 (drop 1 t) @ drop 5 t"
    by simp
  with h e y have "t = 40 # y @ [41]" by simp
  moreover have "s = pre @ t" by (simp add: p t_def)
  moreover have "length y = 4" using y l by simp
  ultimately show "s = pre @ 40 # y @ [41] \<and> length y = 4 \<and> list_all is_digit y"
    using d by simp
next
  assume "s = pre @ 40 # y @ [41] \<and> length y = 4 \<and> list_all is_digit y"
  then show "year_suffix s = Some (pre, y)"
    by (simp add: year_suffix_def Let_def starts_with_def)
qed

lemma rx_year_tail_iff:
  assumes "s = [] \<or> last s \<noteq> 10"
  shows "rx_year_tail s = Some y
     \<longleftrightarrow> (\<exists>ws. list_all is_space ws \<and> year_suffix s = Some (ws, y))"
proof
  assume a: "rx_year_tail s = Some y"
  define r where "r = dropWhile is_space s"
  from a have h: "take 1 r = [40]" and y: "y = take 4 (drop 1 r)" and l: "length y = 4"
    and d: "list_all is_digit y" and c: "take 1 (drop 5 r) = [41]"
    and e: "drop 6 r = [] \<or> drop 6 r = [10]"
    by (auto simp add: rx_year_tail_def Let_def r_def starts_with_def split: if_splits)
  have s: "s = takeWhile is_space s @ r"
    by (simp add: r_def)
  have r6: "r = take 6 r @ drop 6 r"
    by simp
  have "drop 6 r \<noteq> [10]"
  proof
    assume "drop 6 r = [10]"
    with r6 have "r = take 6 r @ [10]" by simp
    with s have "s = (takeWhile is_space s @ take 6 r) @ [10]" by simp
    then have "s \<noteq> [] \<and> last s = 10"
      by (metis last_snoc snoc_eq_iff_butlast)
    with assms show False by simp
  qed
  with e have e': "drop 6 r = []" by simp
  have "take 4 (drop 1 r) @ drop 5 r = drop 1 r"
    using append_take_drop_id [of 4 "drop 1 r"] by simp
  moreover have "take 1 (drop 5 r) @ drop 6 r = drop 5 r"
    using append_take_drop_id [of 1 "drop 5 r"] by simp
  ultimately have "r = take 1 r @ take 4 (drop 1 r) @ take 1 (drop 5 r) @ drop 6 r"
    by (metis append_take_drop_id)
  with h y c e' have "r = 40 # y @ [41]" by simp
  with s l d have "year_suffix s = Some (takeWhile is_space s, y)"
    by (simp add: year_suffix_iff)
  moreover have "list_all is_space (takeWhile is_space s)"
    by (auto simp add: list_all_iff dest: set_takeWhileD)
  ultimately show "\<exists>ws. list_all is_space ws \<and> year_suffix s = Some (ws, y)"
    by blast
next
  assume "\<exists>ws. list_all is_space ws \<and> year_suffix s = Some (ws, y)"
  then obtain ws where w: "list_all is_space ws" and "year_suffix s = Some (ws, y)"
    by blast
  then have s: "s = ws @ 40 # y @ [41]" and l: "length y = 4" and d: "list_all is_digit y"
    by (simp_all add: year_suffix_iff)
  from w have "dropWhile is_space s = 40 # y @ [41]"
    by (simp add: s list_all_iff space_facts)
  with l d show "rx_year_tail s = Some y"
    by (simp add: rx_year_tail_def Let_def starts_with_def)
qed


lemma year_suffix_Cons:
  "year_suffix cs = Some (pre, y) \<Longrightarrow> year_suffix (c # cs) = Some (c # pre, y)"
  by (simp add: year_suffix_iff)

lemma rx_name_year_eq:
  assumes "s = [] \<or> last s \<noteq> 10"
  shows "rx_name_year acc s =
     (case year_suffix s of
        Some (pre, y) \<Rightarrow> if 10 \<in> set (rstrip pre) then None else Some (acc @ rstrip pre, y)
      | None \<Rightarrow> None)"
  using assms
proof (induction s arbitrary: acc)
  case Nil
  then show ?case
    by (simp add: rx_year_tail_def year_suffix_def starts_with_def)
next
  case (Cons c cs)
  from Cons.prems have nl: "cs = [] \<or> last cs \<noteq> 10"
    by (auto split: if_splits)
  note IH = Cons.IH [OF nl]
  show ?case
  proof (cases "rx_year_tail (c # cs)")
    case (Some y)
    then obtain ws where "list_all is_space ws" and "year_suffix (c # cs) = Some (ws, y)"
      using rx_year_tail_iff [OF Cons.prems] by blast
    with Some show ?thesis
      by (simp add: rstrip_spaces)
  next
    case None
    have nospace: "\<not> list_all is_space pre" if "year_suffix (c # cs) = Some (pre, y)" for pre y
      using rx_year_tail_iff [OF Cons.prems, of y] None that by auto
    show ?thesis
    proof (cases "year_suffix (c # cs)")
      case n: None
      have "year_suffix cs = None"
      proof (cases "year_suffix cs")
        case (Some py)
        then obtain pre y where "year_suffix cs = Some (pre, y)"
          by (cases py) simp
        from year_suffix_Cons [OF this, of c] n show ?thesis
          by simp
      qed simp
      with None n show ?thesis
        by (simp add: IH)
    next
      case (Some py)
      then obtain pre y where py: "year_suffix (c # cs) = Some (pre, y)"
        by (cases py) simp
      from nospace [OF py] have ns: "\<not> list_all is_space pre" .
      then have "pre \<noteq> []" by auto
      moreover from py have eq: "c # cs = pre @ 40 # y @ [41]"
        and l: "length y = 4" and d: "list_all is_digit y"
        by (simp_all add: year_suffix_iff)
      ultimately obtain pre' where pre: "pre = c # pre'" and cs: "cs = pre' @ 40 # y @ [41]"
        by (cases pre) auto
      from cs l d have ycs: "year_suffix cs = Some (pre', y)"
        by (simp add: year_suffix_iff)
      from ns have r: "rstrip pre = c # rstrip pre'"
        by (simp add: pre rstrip_Cons)
      from None py ycs r show ?thesis
        by (simp add: IH)
    qed
  qed
qed

lemma rstrip_append: "\<not> list_all is_space ys \<Longrightarrow> rstrip (xs @ ys) = xs @ rstrip ys"
  by (auto simp add: rstrip_def list_all_iff)

lemma rstrip_idem: "rstrip (rstrip xs) = rstrip xs"
  by (simp add: rstrip_def)

lemma lstrip_rstrip: "lstrip (rstrip xs) = rstrip (lstrip xs)"
proof (cases "list_all is_space xs")
  case True
  then have "rstrip xs = []" and "lstrip xs = []"
    by (simp_all add: rstrip_spaces lstrip_def list_all_iff)
  then show ?thesis
    by (simp add: lstrip_def [of "[]"] rstrip_def [of "[]"])
next
  case False
  define a where "a = takeWhile is_space xs"
  define b where "b = dropWhile is_space xs"
  have xs: "xs = a @ b" and sa: "\<forall>x\<in>set a. is_space x"
    by (auto simp add: a_def b_def dest: set_takeWhileD)
  from False have "b \<noteq> []"
    by (auto simp add: b_def list_all_iff)
  then obtain c bs where b: "b = c # bs"
    by (cases b) auto
  have c: "\<not> is_space c"
    using hd_dropWhile [of is_space xs] b by (metis b_def list.sel(1) list.distinct(1))
  then have nb: "\<not> list_all is_space b"
    by (simp add: b)
  have "rstrip xs = a @ rstrip b"
    unfolding xs using nb by (rule rstrip_append)
  moreover have "rstrip b = c # rstrip bs"
    using c by (simp add: b rstrip_Cons)
  ultimately have "lstrip (rstrip xs) = rstrip b"
    using sa c by (simp add: lstrip_def)
  then show ?thesis
    by (simp add: lstrip_def b_def)
qed

lemma strip_rstrip: "strip (rstrip xs) = strip xs"
  by (simp add: strip_def lstrip_rstrip rstrip_idem)

lemma strip_last: "strip t = [] \<or> last (strip t) \<noteq> 10"
proof (cases "strip t = []")
  case False
  then have n: "dropWhile is_space (rev (lstrip t)) \<noteq> []"
    by (simp add: strip_def rstrip_def)
  have "last (strip t) = hd (dropWhile is_space (rev (lstrip t)))"
    using n by (simp add: strip_def rstrip_def last_rev)
  with hd_dropWhile [OF n] have "\<not> is_space (last (strip t))"
    by simp
  then show ?thesis
    using space_facts(1) by auto
qed simp

lemma name_year_eq:
  assumes "select_name_link item = Some l"
  shows "name_year item =
     (case year_suffix (strip (text_of (snd l))) of
        Some (pre, y) \<Rightarrow>
          if 10 \<in> set (rstrip pre) then (strip (text_of (snd l)), []) else (strip pre, y)
      | None \<Rightarrow> (strip (text_of (snd l)), []))"
  by (simp add: name_year_def assms rx_name_year_eq [OF strip_last] strip_rstrip
      split: option.splits prod.splits)

lemma parse_name_link_year:
  "parse_rating_item None (item_of [name_link (u ''Foo (1999)'')])
     = Inr (result_with [] (u ''Foo'') [] [] (u ''1999'') (u ''film'') [] [])"
  by (simp add: parse_None_eq field_ev item_ev soup_ev string_ev rx_year_tail_def)

lemma parse_name_link_plain:
  "parse_rating_item None (item_of [name_link (u ''Foo'')])
     = Inr (result_with [] (u ''Foo'') [] [] [] (u ''film'') [] [])"
  by (simp add: parse_None_eq field_ev item_ev soup_ev string_ev rx_year_tail_def)

lemma parse_name_link_newline:
  "parse_rating_item None (item_of [name_link two_line_title])
     = Inr (result_with [] two_line_title [] [] [] (u ''film'') [] [])"
  by (simp add: parse_None_eq field_ev item_ev soup_ev string_ev rx_year_tail_def
      two_line_title_def)

lemma select_name_link_example:
  "select_name_link (item_of [name_link s]) =
     Some ([(u ''div'', Some [u ''nameRus'']), (u ''div'', Some [u ''item''])],
           Tag (u ''a'') None [] [text_node s])"
  by (simp add: item_ev soup_ev string_ev)

text \<open>
  What the source does with every link text. Let \<open>s\<close> be the text of the local-title
  link with the surrounding whitespace removed. If \<open>s\<close> ends in a parenthesized
  four-digit year and the part before the parenthesis, without its trailing whitespace,
  holds no line feed, then \<^verbatim>\<open>year\<close> is the four digits and \<^verbatim>\<open>nameRus\<close> is that
  part, trimmed. In every other case \<^verbatim>\<open>year\<close> is the empty string and
  \<^verbatim>\<open>nameRus\<close> is \<open>s\<close>.
\<close>

lemma name_and_year_split:
  assumes "select_name_link item = Some l"
  shows "\<exists>r. parse_rating_item None item = Inr r
     \<and> (case year_suffix (strip (text_of (snd l))) of
          Some (pre, y) \<Rightarrow>
            if 10 \<in> set (rstrip pre)
            then dget r ''nameRus'' = Inr (strip (text_of (snd l))) \<and> dget r ''year'' = Inr []
            else dget r ''nameRus'' = Inr (strip pre) \<and> dget r ''year'' = Inr y
        | None \<Rightarrow>
            dget r ''nameRus'' = Inr (strip (text_of (snd l))) \<and> dget r ''year'' = Inr [])"
  by (simp add: parse_None_eq dget_def name_year_eq [OF assms] split: option.splits prod.splits)

lemma name_and_year_split_examples:
  "year_suffix (u ''Foo (1999)'') = Some (u ''Foo '', u ''1999'')
   \<and> parse_rating_item None (item_of [name_link (u ''Foo (1999)'')])
       = Inr (result_with [] (u ''Foo'') [] [] (u ''1999'') (u ''film'') [] [])
   \<and> year_suffix (u ''Foo'') = None
   \<and> parse_rating_item None (item_of [name_link (u ''Foo'')])
       = Inr (result_with [] (u ''Foo'') [] [] [] (u ''film'') [] [])"
proof -
  have a: "year_suffix (u ''Foo (1999)'') = Some (u ''Foo '', u ''1999'')"
    "year_suffix (u ''Foo'') = None"
    by (simp_all add: year_suffix_def string_ev)
  show ?thesis
    using name_and_year_split [OF select_name_link_example, of "u ''Foo (1999)''"]
      name_and_year_split [OF select_name_link_example, of "u ''Foo''"]
    by (simp add: a parse_name_link_year parse_name_link_plain)
qed

text \<open>
  C5. The claim takes the year from every link text that ends in a parenthesized
  four-digit year, and the comment of the source announces the same check. The link text
  "A", line feed, "B (1999)" ends in such a year, but the pattern of the source, whose
  dot does not match a line feed, fails on it: the year stays empty and the name is the
  whole text.
\<close>

theorem year_lost_after_line_feed:
  "select_name_link (item_of [name_link two_line_title])
     = Some ([(u ''div'', Some [u ''nameRus'']), (u ''div'', Some [u ''item''])],
             Tag (u ''a'') None [] [text_node two_line_title])
   \<and> year_suffix (strip (text_of (Tag (u ''a'') None [] [text_node two_line_title])))
       = Some (u ''A'' @ [10] @ u ''B '', u ''1999'')
   \<and> parse_rating_item None (item_of [name_link two_line_title])
       = Inr (result_with [] two_line_title [] [] [] (u ''film'') [] [])
   \<and> dget (result_with [] two_line_title [] [] [] (u ''film'') [] []) ''year''
       \<noteq> Inr (u ''1999'')"
proof -
  have "year_suffix (strip (text_of (Tag (u ''a'') None [] [text_node two_line_title])))
       = Some (u ''A'' @ [10] @ u ''B '', u ''1999'')"
    by (simp add: year_suffix_def text_node_def string_ev two_line_title_def)
  then show ?thesis
    by (simp add: select_name_link_example parse_name_link_newline dget_def) (simp add: u_def)
qed

end
